theory Spec2Isabelle
  imports Main "HOL-Library.Word"
begin

unbundle bit_operations_syntax

section \<open>Data model of redshow\<close>

text \<open>
  The fixed-width integers of the source are words: \<open>uint8_t\<close>, \<open>uint32_t\<close>
  (also \<open>unsigned int\<close>) and \<open>uint64_t\<close>. Arithmetic on them wraps, comparison is
  unsigned.
\<close>

type_synonym u8 = "8 word"
type_synonym u32 = "32 word"
type_synonym u64 = "64 word"

text \<open>\<open>redshow_result_t\<close>, the result codes the interface functions return.\<close>

datatype redshow_result =
    REDSHOW_SUCCESS
  | REDSHOW_ERROR_NO_SUCH_FILE
  | REDSHOW_ERROR_FAILED_ANALYZE_CUBIN
  | REDSHOW_ERROR_NOT_EXIST_ENTRY
  | REDSHOW_ERROR_DUPLICATE_ENTRY
  | REDSHOW_ERROR_NO_SUCH_APPROX
  | REDSHOW_ERROR_NOT_REGISTER_CALLBACK

text \<open>
  What a call can do instead of returning a result code: \<open>std::map::at\<close> throws
  \<open>std::out_of_range\<close> (nothing in the library catches it), an unsigned division by
  zero traps, and an unchecked \<open>operator[]\<close> past the end of a vector is undefined.
\<close>

datatype failure = OutOfRange | DivideByZero | UndefinedBehaviour

subsection \<open>Symbols (\<open>instruction.h\<close>)\<close>

text \<open>\<open>struct Symbol\<close>; \<open>operator<\<close> compares the \<open>pc\<close> fields only.\<close>

record Symbol =
  sym_index :: u32
  sym_cubin_offset :: u64
  sym_pc :: u64

definition Symbol_less :: "Symbol \<Rightarrow> Symbol \<Rightarrow> bool" where
  "Symbol_less a b = (sym_pc a < sym_pc b)"

text \<open>The constructor \<open>Symbol(uint64_t pc)\<close>, which is \<open>Symbol(0, 0, pc)\<close>.\<close>

definition Symbol_of_pc :: "u64 \<Rightarrow> Symbol" where
  "Symbol_of_pc p = \<lparr>sym_index = 0, sym_cubin_offset = 0, sym_pc = p\<rparr>"

subsection \<open>Ordered containers\<close>

text \<open>
  \<open>std::upper_bound(first, last, value)\<close> on a sorted vector: the position of the first
  element that \<open>value\<close> is less than, \<open>last\<close> (the length) when there is none.
  Position \<open>0\<close> is \<open>begin()\<close>.
\<close>

fun vector_upper_bound :: "('a \<Rightarrow> 'a \<Rightarrow> bool) \<Rightarrow> 'a list \<Rightarrow> 'a \<Rightarrow> nat" where
  "vector_upper_bound lt [] v = 0"
| "vector_upper_bound lt (x # xs) v =
     (if lt v x then 0 else Suc (vector_upper_bound lt xs v))"

text \<open>
  A \<open>std::map\<close> is the list of its entries in key order. The comparison \<open>lt\<close> is the
  key type's \<open>operator<\<close>; two keys neither of which is less than the other are the same
  key to the map. \<open>upper_bound\<close> gives the position of the first entry whose key is
  greater than \<open>k\<close>; \<open>map_find\<close> the entry with key \<open>k\<close> (\<open>None\<close> for \<open>end()\<close>);
  \<open>map_assign\<close> is \<open>m[k] = v\<close>, which keeps the stored key of an entry that exists;
  \<open>map_erase\<close> is \<open>m.erase(k)\<close>.
\<close>

fun upper_bound :: "('k \<Rightarrow> 'k \<Rightarrow> bool) \<Rightarrow> ('k \<times> 'v) list \<Rightarrow> 'k \<Rightarrow> nat" where
  "upper_bound lt [] k = 0"
| "upper_bound lt (e # m) k =
     (if lt k (fst e) then 0 else Suc (upper_bound lt m k))"

fun map_find :: "('k \<Rightarrow> 'k \<Rightarrow> bool) \<Rightarrow> ('k \<times> 'v) list \<Rightarrow> 'k \<Rightarrow> ('k \<times> 'v) option" where
  "map_find lt [] k = None"
| "map_find lt (e # m) k =
     (if \<not> lt (fst e) k \<and> \<not> lt k (fst e) then Some e else map_find lt m k)"

fun map_assign :: "('k \<Rightarrow> 'k \<Rightarrow> bool) \<Rightarrow> ('k \<times> 'v) list \<Rightarrow> 'k \<Rightarrow> 'v \<Rightarrow> ('k \<times> 'v) list" where
  "map_assign lt [] k v = [(k, v)]"
| "map_assign lt (e # m) k v =
     (if lt k (fst e) then (k, v) # e # m
      else if lt (fst e) k then e # map_assign lt m k v
      else (fst e, v) # m)"

fun map_erase :: "('k \<Rightarrow> 'k \<Rightarrow> bool) \<Rightarrow> ('k \<times> 'v) list \<Rightarrow> 'k \<Rightarrow> ('k \<times> 'v) list" where
  "map_erase lt [] k = []"
| "map_erase lt (e # m) k =
     (if \<not> lt (fst e) k \<and> \<not> lt k (fst e) then m else e # map_erase lt m k)"

subsection \<open>Access kinds, instructions and the instruction graph (\<open>instruction.h\<close>)\<close>

text \<open>
  \<open>struct AccessKind\<close>, which \<open>redshow.cpp\<close> still calls \<open>AccessType\<close>. Its default
  constructor gives \<open>(0, 0, UNKNOWN)\<close>.
\<close>

datatype DataType = UNKNOWN | INTEGER | FLOAT

record AccessKind =
  vec_size :: u32
  unit_size :: u32
  data_type :: DataType

definition AccessKind_default :: AccessKind where
  "AccessKind_default = \<lparr>vec_size = 0, unit_size = 0, data_type = UNKNOWN\<rparr>"

record Instruction =
  inst_op :: string
  inst_pc :: u32
  inst_predicate :: int
  inst_dsts :: "int list"
  inst_srcs :: "int list"
  inst_assign_pcs :: "(int \<times> int list) list"
  inst_access_kind :: "AccessKind option"

text \<open>
  \<open>class InstructionGraph\<close>: three maps keyed by an \<open>unsigned int\<close> pc. \<open>size()\<close> is
  the number of nodes; \<open>node(pc)\<close> is \<open>_nodes.at(pc)\<close>, which throws
  \<open>std::out_of_range\<close> when the graph has no node at \<open>pc\<close>.
\<close>

record InstructionGraph =
  incoming_nodes :: "(u32 \<times> u32 list) list"
  outgoing_nodes :: "(u32 \<times> u32 list) list"
  nodes :: "(u32 \<times> Instruction) list"

definition InstructionGraph_empty :: InstructionGraph where
  "InstructionGraph_empty = \<lparr>incoming_nodes = [], outgoing_nodes = [], nodes = []\<rparr>"

definition graph_size :: "InstructionGraph \<Rightarrow> nat" where
  "graph_size g = length (nodes g)"

definition has_node :: "InstructionGraph \<Rightarrow> u32 \<Rightarrow> bool" where
  "has_node g pc = (map_find (<) (nodes g) pc \<noteq> None)"

definition node :: "InstructionGraph \<Rightarrow> u32 \<Rightarrow> failure + Instruction" where
  "node g pc = (case map_find (<) (nodes g) pc of None \<Rightarrow> Inl OutOfRange | Some e \<Rightarrow> Inr (snd e))"

subsection \<open>Cubins, memory ranges, kernels (\<open>redshow.cpp\<close>, \<open>common_lib.h\<close>)\<close>

record Cubin =
  c_cubin_id :: u32
  c_path :: string
  c_symbols :: "Symbol list"
  c_inst_graph :: InstructionGraph

text \<open>\<open>symbol_pcs\<close> is the array of \<open>nsymbols\<close> pcs the cache entry owns.\<close>

record CubinCache =
  cc_cubin_id :: u32
  cc_nsymbols :: u32
  cc_symbol_pcs :: "u64 list"
  cc_path :: string

text \<open>\<open>struct MemoryRange\<close>; \<open>operator<\<close> compares the \<open>start\<close> fields only.\<close>

record MemoryRange =
  range_start :: u64
  range_end :: u64

definition MemoryRange_less :: "MemoryRange \<Rightarrow> MemoryRange \<Rightarrow> bool" where
  "MemoryRange_less a b = (range_start a < range_start b)"

record Memory =
  memory_range :: MemoryRange
  memory_op_id :: u64
  memory_id :: u64

type_synonym MemoryMap = "(MemoryRange \<times> Memory) list"

definition MEMORY_ID_SHARED :: u64 where "MEMORY_ID_SHARED = 1"
definition MEMORY_ID_LOCAL :: u64 where "MEMORY_ID_LOCAL = 2"

record ThreadId =
  flat_block_id :: u32
  flat_thread_id :: u32

text \<open>
  The accumulators of a kernel. Only membership, lookup and \<open>erase\<close> by key are used on
  them here, so they are partial functions.
\<close>

type_synonym SpatialTrace = "(u64 \<times> DataType) \<rightharpoonup> (u64 \<rightharpoonup> (u64 \<rightharpoonup> u64))"
type_synonym TemporalTrace = "ThreadId \<rightharpoonup> (u64 \<rightharpoonup> (u64 \<times> u64))"
type_synonym PCPairs = "u64 \<rightharpoonup> (u64 \<rightharpoonup> ((u64 \<times> DataType) \<rightharpoonup> u64))"

record Kernel =
  kernel_id :: u64
  cubin_id :: u32
  func_index :: u32
  func_addr :: u64
  read_spatial_trace :: SpatialTrace
  write_spatial_trace :: SpatialTrace
  read_temporal_trace :: TemporalTrace
  read_pc_pairs :: PCPairs
  write_temporal_trace :: TemporalTrace
  write_pc_pairs :: PCPairs

text \<open>The \<open>Kernel\<close> that \<open>operator[]\<close> of the kernel map creates: value-initialised.\<close>

definition Kernel_default :: Kernel where
  "Kernel_default =
     \<lparr>kernel_id = 0, cubin_id = 0, func_index = 0, func_addr = 0,
      read_spatial_trace = Map.empty, write_spatial_trace = Map.empty,
      read_temporal_trace = Map.empty, read_pc_pairs = Map.empty,
      write_temporal_trace = Map.empty, write_pc_pairs = Map.empty\<rparr>"

subsection \<open>The instrumentation buffer\<close>

text \<open>
  Modelled from the spec: \<open>gpu-patch.h\<close>, which declares \<open>gpu_patch_record_t\<close>,
  \<open>gpu_patch_buffer_t\<close>, the flag bits and \<open>GPU_PATCH_WARP_SIZE\<close>, is not among the
  sources. A record has the fields the spec lists and \<open>trace_analyze\<close> reads. The flags
  word is the set of flags whose bit it has, so that \<open>record->flags & F\<close> is
  \<open>F \<in> rec_flags r\<close>. \<open>address\<close> and \<open>value\<close> are arrays indexed by lane (and byte);
  \<open>records\<close> is the array the buffer points to. The warp size is 32: the lane mask
  \<open>active\<close> has 32 bits, and the source's comment on the default access kind, whose unit
  size is at most \<open>GPU_PATCH_WARP_SIZE\<close>, speaks of a unit of 32 bits.
\<close>

datatype gpu_patch_flag =
    GPU_PATCH_LOCAL
  | GPU_PATCH_SHARED
  | GPU_PATCH_BLOCK_ENTER_FLAG
  | GPU_PATCH_BLOCK_EXIT_FLAG
  | GPU_PATCH_READ
  | GPU_PATCH_WRITE

record gpu_patch_record =
  rec_pc :: u64
  rec_size :: u32
  rec_active :: u32
  rec_flat_thread_id :: u32
  rec_flat_block_id :: u32
  rec_flags :: "gpu_patch_flag set"
  rec_address :: "nat \<Rightarrow> u64"
  rec_value :: "nat \<Rightarrow> nat \<Rightarrow> u8"

record gpu_patch_buffer =
  head_index :: u32
  records :: "nat \<Rightarrow> gpu_patch_record"

definition GPU_PATCH_WARP_SIZE :: nat where
  "GPU_PATCH_WARP_SIZE = 32"

subsection \<open>Global state and external functions\<close>

datatype redshow_analysis_type =
    REDSHOW_ANALYSIS_SPATIAL_REDUNDANCY
  | REDSHOW_ANALYSIS_TEMPORAL_REDUNDANCY

text \<open>
  The static variables of \<open>redshow.cpp\<close>. \<open>log_data_callback\<close> says whether a callback
  is registered (the pointer is not \<open>NULL\<close>); what the callback does is the caller's.
  \<open>mini_host_op_id\<close> is thread-local in the source: the state is the view of one thread.
  The kernel maps are never iterated or searched by order here, so they are partial
  functions; the snapshot map is searched with \<open>upper_bound\<close> and is an entry list.
\<close>

record globals =
  cubin_map :: "u32 \<rightharpoonup> Cubin"
  cubin_cache_map :: "u32 \<rightharpoonup> CubinCache"
  memory_snapshot :: "(u64 \<times> MemoryMap) list"
  kernel_map :: "u32 \<rightharpoonup> (u64 \<rightharpoonup> Kernel)"
  analysis_enabled :: "redshow_analysis_type set"
  log_data_callback :: bool
  mini_host_op_id :: u64
  decimal_degree_f32 :: int
  decimal_degree_f64 :: int

definition initial_globals :: globals where
  "initial_globals =
     \<lparr>cubin_map = Map.empty, cubin_cache_map = Map.empty, memory_snapshot = [],
      kernel_map = Map.empty, analysis_enabled = {}, log_data_callback = False,
      mini_host_op_id = 0, decimal_degree_f32 = 23, decimal_degree_f64 = 52\<rparr>"

text \<open>
  The functions \<open>redshow.cpp\<close> calls and the sources only declare, and the file system,
  are parameters of the model: \<open>file_good\<close> says whether \<open>std::ifstream\<close> opens a path;
  \<open>parse_instructions\<close> returns its \<open>bool\<close> and what it leaves in its two reference
  arguments; the two trace functions return the accumulators they update. So is the
  order in which \<open>std::sort\<close> leaves elements that compare equal, which the C++ library
  does not specify: \<open>sort_rank symbols i\<close> is the rank it gives to position \<open>i\<close> of the
  vector \<open>symbols\<close> among the elements of the same pc.
\<close>

record externals =
  file_good :: "string \<Rightarrow> bool"
  parse_instructions ::
    "string \<Rightarrow> Symbol list \<Rightarrow> InstructionGraph \<Rightarrow> bool \<times> Symbol list \<times> InstructionGraph"
  load_data_type :: "u32 \<Rightarrow> InstructionGraph \<Rightarrow> AccessKind"
  store_data_type :: "u32 \<Rightarrow> InstructionGraph \<Rightarrow> AccessKind"
  store2basictype :: "u64 \<Rightarrow> AccessKind \<Rightarrow> int \<Rightarrow> int \<Rightarrow> u64"
  get_spatial_trace :: "u64 \<Rightarrow> u64 \<Rightarrow> u64 \<Rightarrow> AccessKind \<Rightarrow> SpatialTrace \<Rightarrow> SpatialTrace"
  get_temporal_trace ::
    "u64 \<Rightarrow> ThreadId \<Rightarrow> u64 \<Rightarrow> u64 \<Rightarrow> AccessKind \<Rightarrow> TemporalTrace \<Rightarrow> PCPairs
      \<Rightarrow> TemporalTrace \<times> PCPairs"
  sort_rank :: "Symbol list \<Rightarrow> nat \<Rightarrow> nat"

section \<open>PC translation\<close>

text \<open>
  \<open>transform_pc\<close> writes its three results through references and assigns them only when
  it finds a symbol. The model takes the values the outputs hold before the call and
  returns the values they hold after it, next to the result code.
\<close>

definition transform_pc ::
  "Symbol list \<Rightarrow> u64 \<Rightarrow> u32 \<times> u64 \<times> u64 \<Rightarrow> redshow_result \<times> u32 \<times> u64 \<times> u64" where
  "transform_pc symbols pc outs =
     (let symbol = Symbol_of_pc pc;
          symbols_iter = vector_upper_bound Symbol_less symbols symbol
      in if symbols_iter \<noteq> 0 then
           let s = symbols ! (symbols_iter - 1);
               pc_offset = pc - sym_pc s;
               cubin_offset = pc_offset + sym_cubin_offset s;
               function_index = sym_index s
           in (REDSHOW_SUCCESS, function_index, cubin_offset, pc_offset)
         else (REDSHOW_ERROR_NOT_EXIST_ENTRY, outs))"

section \<open>Cubin registry\<close>

text \<open>
  \<open>std::string::rfind(c, pos)\<close>: the last position not after \<open>pos\<close> that holds \<open>c\<close>;
  \<open>None\<close> stands for \<open>npos\<close>, as argument and as result.
  \<open>substr(pos, count)\<close> with \<open>pos\<close> inside the string.
\<close>

definition string_rfind :: "string \<Rightarrow> char \<Rightarrow> nat option \<Rightarrow> nat option" where
  "string_rfind str c pos =
     (let bound = (case pos of None \<Rightarrow> length str | Some p \<Rightarrow> min (Suc p) (length str));
          hits = filter (\<lambda>i. str ! i = c) [0..<bound]
      in if hits = [] then None else Some (last hits))"

definition string_substr :: "string \<Rightarrow> nat \<Rightarrow> nat option \<Rightarrow> string" where
  "string_substr str pos count =
     (case count of None \<Rightarrow> drop pos str | Some n \<Rightarrow> take n (drop pos str))"

text \<open>
  The path of the instruction file that \<open>cubin_analyze\<close> derives from the path of the
  cubin; \<open>None\<close> when the path has no \<open>/\<close>. \<open>iter - 1\<close> is computed on \<open>size_t\<close>, so it
  is \<open>npos\<close> when \<open>iter\<close> is \<open>0\<close>.
\<close>

definition inst_path_of :: "string \<Rightarrow> string option" where
  "inst_path_of cubin_path =
     (case string_rfind cubin_path CHR ''/'' None of
        None \<Rightarrow> None
      | Some iter \<Rightarrow>
          let cubin_name = string_substr cubin_path (iter + 1) (Some (length cubin_path - iter));
              iter' = string_rfind cubin_path CHR ''/'' (if iter = 0 then None else Some (iter - 1));
              dir_name = string_substr cubin_path 0 iter';
              inst_path = dir_name @ ''/structs/nvidia/'' @ cubin_name @ ''.inst''
          in Some inst_path)"

definition cubin_analyze ::
  "externals \<Rightarrow> string \<Rightarrow> Symbol list \<Rightarrow> InstructionGraph
    \<Rightarrow> redshow_result \<times> Symbol list \<times> InstructionGraph" where
  "cubin_analyze ext path symbols inst_graph =
     (case inst_path_of path of
        None \<Rightarrow> (REDSHOW_ERROR_NO_SUCH_FILE, symbols, inst_graph)
      | Some inst_path \<Rightarrow>
          if \<not> file_good ext inst_path then (REDSHOW_ERROR_NO_SUCH_FILE, symbols, inst_graph)
          else
            (case parse_instructions ext inst_path symbols inst_graph of
               (ok, symbols', inst_graph') \<Rightarrow>
                 if ok then (REDSHOW_SUCCESS, symbols', inst_graph')
                 else (REDSHOW_ERROR_FAILED_ANALYZE_CUBIN, symbols', inst_graph')))"

text \<open>
  The loop \<open>symbols[i].pc = symbol_pcs[i]\<close> for \<open>i < nsymbols\<close>, on a vector that has
  at least \<open>nsymbols\<close> elements. \<open>symbol_pcs\<close> is the caller's array, by index. The
  index of the loop is an \<open>int\<close>, which the model's index agrees with for vectors of fewer
  than \<open>2 ^ 31\<close> symbols.
\<close>

definition assign_symbol_pcs :: "Symbol list \<Rightarrow> (nat \<Rightarrow> u64) \<Rightarrow> nat \<Rightarrow> Symbol list" where
  "assign_symbol_pcs symbols symbol_pcs nsymbols =
     fold (\<lambda>i syms. syms[i := (syms ! i)\<lparr>sym_pc := symbol_pcs i\<rparr>]) [0..<nsymbols] symbols"

text \<open>
  \<open>std::sort(symbols.begin(), symbols.end())\<close> with \<open>Symbol::operator<\<close>: the symbols in
  ascending order of pc, those with equal pcs in the order of the ranks the library gives
  to their positions (positions of equal rank in the order they had). Every rank
  function gives an outcome \<open>std::sort\<close> may have, and every outcome it may have comes
  from a rank function.
\<close>

definition std_sort :: "externals \<Rightarrow> Symbol list \<Rightarrow> Symbol list" where
  "std_sort ext symbols =
     map snd (sort_key (\<lambda>e. sym_pc (snd e))
               (sort_key (\<lambda>e. sort_rank ext symbols (fst e)) (enumerate 0 symbols)))"

text \<open>
  \<open>redshow_cubin_register\<close>. The vector starts as \<open>nsymbols\<close> default symbols. After
  \<open>cubin_analyze\<close> returns \<open>SUCCESS\<close> or \<open>NO_SUCH_FILE\<close> the pcs are assigned, the
  symbols sorted by pc and the cubin is entered in the map unless its id is there. Should
  \<open>parse_instructions\<close> leave fewer than \<open>nsymbols\<close> elements, the assignments run past
  the end of the vector.
\<close>

definition redshow_cubin_register ::
  "externals \<Rightarrow> globals \<Rightarrow> u32 \<Rightarrow> u32 \<Rightarrow> (nat \<Rightarrow> u64) \<Rightarrow> string
    \<Rightarrow> (failure + redshow_result) \<times> globals" where
  "redshow_cubin_register ext g cubin_id' nsymbols symbol_pcs path =
     (case cubin_analyze ext path (replicate (unat nsymbols) (Symbol_of_pc 0)) InstructionGraph_empty of
        (result, symbols, inst_graph) \<Rightarrow>
          if result = REDSHOW_SUCCESS \<or> result = REDSHOW_ERROR_NO_SUCH_FILE then
            if length symbols < unat nsymbols then (Inl UndefinedBehaviour, g)
            else
              let symbols = assign_symbol_pcs symbols symbol_pcs (unat nsymbols);
                  symbols = std_sort ext symbols
              in if cubin_map g cubin_id' = None then
                   (Inr result,
                    g\<lparr>cubin_map := (cubin_map g)(cubin_id' \<mapsto>
                         \<lparr>c_cubin_id = cubin_id', c_path = path, c_symbols = symbols,
                          c_inst_graph = inst_graph\<rparr>)\<rparr>)
                 else (Inr REDSHOW_ERROR_DUPLICATE_ENTRY, g)
          else (Inr result, g))"

definition redshow_cubin_cache_register ::
  "globals \<Rightarrow> u32 \<Rightarrow> u32 \<Rightarrow> (nat \<Rightarrow> u64) \<Rightarrow> string \<Rightarrow> redshow_result \<times> globals" where
  "redshow_cubin_cache_register g cubin_id' nsymbols symbol_pcs path =
     (if cubin_cache_map g cubin_id' = None then
        (REDSHOW_SUCCESS,
         g\<lparr>cubin_cache_map := (cubin_cache_map g)(cubin_id' \<mapsto>
              \<lparr>cc_cubin_id = cubin_id', cc_nsymbols = nsymbols,
               cc_symbol_pcs = map symbol_pcs [0..<unat nsymbols], cc_path = path\<rparr>)\<rparr>)
      else (REDSHOW_ERROR_DUPLICATE_ENTRY, g))"

definition redshow_cubin_unregister :: "globals \<Rightarrow> u32 \<Rightarrow> redshow_result \<times> globals" where
  "redshow_cubin_unregister g cubin_id' =
     (if cubin_map g cubin_id' \<noteq> None then
        (REDSHOW_SUCCESS, g\<lparr>cubin_map := (cubin_map g)(cubin_id' := None)\<rparr>)
      else (REDSHOW_ERROR_NOT_EXIST_ENTRY, g))"

section \<open>Memory snapshots\<close>

definition redshow_memory_register ::
  "globals \<Rightarrow> u64 \<Rightarrow> u64 \<Rightarrow> u64 \<Rightarrow> u64 \<Rightarrow> redshow_result \<times> globals" where
  "redshow_memory_register g start end' host_op_id memory_id' =
     (let range = \<lparr>range_start = start, range_end = end'\<rparr>;
          memory = \<lparr>memory_range = range, memory_op_id = host_op_id, memory_id = memory_id'\<rparr>
      in if length (memory_snapshot g) = 0 then
           (REDSHOW_SUCCESS,
            g\<lparr>memory_snapshot := map_assign (<) (memory_snapshot g) host_op_id
                 (map_assign MemoryRange_less [] range memory)\<rparr>)
         else
           let iter = upper_bound (<) (memory_snapshot g) host_op_id
           in if iter \<noteq> 0 then
                let memory_map = snd (memory_snapshot g ! (iter - 1))
                in if map_find MemoryRange_less memory_map range = None then
                     (REDSHOW_SUCCESS,
                      g\<lparr>memory_snapshot := map_assign (<) (memory_snapshot g) host_op_id
                           (map_assign MemoryRange_less memory_map range memory)\<rparr>)
                   else (REDSHOW_ERROR_DUPLICATE_ENTRY, g)
              else (REDSHOW_ERROR_NOT_EXIST_ENTRY, g))"

definition redshow_memory_unregister ::
  "globals \<Rightarrow> u64 \<Rightarrow> u64 \<Rightarrow> u64 \<Rightarrow> redshow_result \<times> globals" where
  "redshow_memory_unregister g start end' host_op_id =
     (let range = \<lparr>range_start = start, range_end = end'\<rparr>;
          snapshot_iter = upper_bound (<) (memory_snapshot g) host_op_id
      in if snapshot_iter \<noteq> 0 then
           let memory_map = snd (memory_snapshot g ! (snapshot_iter - 1))
           in if map_find MemoryRange_less memory_map range \<noteq> None then
                (REDSHOW_SUCCESS,
                 g\<lparr>memory_snapshot := map_assign (<) (memory_snapshot g) host_op_id
                      (map_erase MemoryRange_less memory_map range)\<rparr>)
              else (REDSHOW_ERROR_NOT_EXIST_ENTRY, g)
         else (REDSHOW_ERROR_NOT_EXIST_ENTRY, g))"

text \<open>
  The snapshot \<open>trace_analyze\<close> works on: the entry before \<open>upper_bound(host_op_id)\<close>,
  none when that is \<open>begin()\<close>.
\<close>

definition select_snapshot :: "(u64 \<times> MemoryMap) list \<Rightarrow> u64 \<Rightarrow> MemoryMap option" where
  "select_snapshot snapshots host_op_id =
     (let snapshot_iter = upper_bound (<) snapshots host_op_id
      in if snapshot_iter = 0 then None
         else Some (snd (snapshots ! (snapshot_iter - 1))))"

text \<open>
  The lookup of one address in the snapshot: \<open>upper_bound\<close> of the empty range at the
  address, one step back unless that is \<open>begin()\<close>, and the \<open>memory_op_id\<close> found there;
  \<open>0\<close> otherwise. Then the fallback to the ids of local and shared memory.
\<close>

definition memory_map_lookup :: "MemoryMap \<Rightarrow> u64 \<Rightarrow> u64" where
  "memory_map_lookup memory_map addr =
     (let range = \<lparr>range_start = addr, range_end = addr\<rparr>;
          iter = upper_bound MemoryRange_less memory_map range
      in if iter \<noteq> 0 then memory_op_id (snd (memory_map ! (iter - 1))) else 0)"

definition resolve_memory_op_id :: "MemoryMap \<Rightarrow> gpu_patch_record \<Rightarrow> nat \<Rightarrow> u64" where
  "resolve_memory_op_id memory_map r j =
     (let op_id = memory_map_lookup memory_map (rec_address r j)
      in if op_id = 0 then
           (if GPU_PATCH_LOCAL \<in> rec_flags r then MEMORY_ID_LOCAL
            else if GPU_PATCH_SHARED \<in> rec_flags r then MEMORY_ID_SHARED
            else 0)
         else op_id)"

text \<open>
  What the ordered maps of the source guarantee for the snapshots: keys in increasing
  order, and in every snapshot ranges in increasing order of their start.
\<close>

definition snapshots_ordered :: "(u64 \<times> MemoryMap) list \<Rightarrow> bool" where
  "snapshots_ordered snapshots =
     (sorted_wrt (<) (map fst snapshots) \<and>
      (\<forall>s\<in>set snapshots. sorted_wrt (<) (map (\<lambda>e. range_start (fst e)) (snd s))))"

section \<open>Trace analysis\<close>

text \<open>
  A loop whose body can fail: the state the failing iteration leaves is kept, since the
  accumulators are updated in place.
\<close>

fun for_each :: "('i \<Rightarrow> 's \<Rightarrow> 's \<times> failure option) \<Rightarrow> 'i list \<Rightarrow> 's \<Rightarrow> 's \<times> failure option" where
  "for_each body [] s = (s, None)"
| "for_each body (i # is) s =
     (case body i s of
        (s', None) \<Rightarrow> for_each body is s'
      | (s', Some f) \<Rightarrow> (s', Some f))"

text \<open>\<open>record->active & (0x1u << j)\<close>, and the thread of lane \<open>j\<close> of the record's warp.\<close>

definition lane_active :: "gpu_patch_record \<Rightarrow> nat \<Rightarrow> bool" where
  "lane_active r j = (rec_active r AND push_bit j 1 \<noteq> 0)"

definition lane_thread_id :: "gpu_patch_record \<Rightarrow> nat \<Rightarrow> ThreadId" where
  "lane_thread_id r j =
     \<lparr>flat_block_id = rec_flat_block_id r,
      flat_thread_id =
        rec_flat_thread_id r div of_nat GPU_PATCH_WARP_SIZE * of_nat GPU_PATCH_WARP_SIZE + of_nat j\<rparr>"

text \<open>The branch of a \<open>BLOCK_EXIT\<close> record: one lane, and the loop over the lanes.\<close>

definition block_exit_lane :: "gpu_patch_record \<Rightarrow> nat \<Rightarrow> Kernel \<Rightarrow> Kernel" where
  "block_exit_lane r j k =
     (if lane_active r j then
        let thread_id = lane_thread_id r j
        in k\<lparr>read_temporal_trace := (read_temporal_trace k)(thread_id := None),
             write_temporal_trace := (write_temporal_trace k)(thread_id := None)\<rparr>
      else k)"

definition block_exit :: "gpu_patch_record \<Rightarrow> Kernel \<Rightarrow> Kernel" where
  "block_exit r k = fold (block_exit_lane r) [0..<GPU_PATCH_WARP_SIZE] k"

text \<open>
  The access kind of a record. With a non-empty graph the instruction at \<open>cubin_offset\<close>
  (narrowed to \<open>unsigned int\<close>) is looked up with \<open>node\<close>, which can throw, and the
  graph is asked; a record that is neither a read nor a write keeps the
  default-constructed kind. Then the fallback when the type is \<open>UNKNOWN\<close>;
  \<open>MIN2(x, y)\<close> is \<open>(x > y ? y : x)\<close>, on 32-bit unsigned values here.
\<close>

definition MIN2 :: "'a::linorder \<Rightarrow> 'a \<Rightarrow> 'a" where
  "MIN2 x y = (if x > y then y else x)"

definition graph_access_type ::
  "externals \<Rightarrow> InstructionGraph \<Rightarrow> u64 \<Rightarrow> gpu_patch_record \<Rightarrow> failure + AccessKind" where
  "graph_access_type ext inst_graph cubin_offset r =
     (if graph_size inst_graph \<noteq> 0 then
        (case node inst_graph (ucast cubin_offset) of
           Inl f \<Rightarrow> Inl f
         | Inr inst \<Rightarrow>
             if GPU_PATCH_READ \<in> rec_flags r then Inr (load_data_type ext (inst_pc inst) inst_graph)
             else if GPU_PATCH_WRITE \<in> rec_flags r then
               Inr (store_data_type ext (inst_pc inst) inst_graph)
             else Inr AccessKind_default)
      else Inr AccessKind_default)"

definition default_access_type :: "gpu_patch_record \<Rightarrow> AccessKind \<Rightarrow> AccessKind" where
  "default_access_type r access_type =
     (if data_type access_type = UNKNOWN then
        let vec = rec_size r * 8
        in \<lparr>vec_size = vec, unit_size = MIN2 (of_nat GPU_PATCH_WARP_SIZE) (vec * 8),
            data_type = FLOAT\<rparr>
      else access_type)"

definition record_access_type ::
  "externals \<Rightarrow> InstructionGraph \<Rightarrow> u64 \<Rightarrow> gpu_patch_record \<Rightarrow> failure + AccessKind" where
  "record_access_type ext inst_graph cubin_offset r =
     (case graph_access_type ext inst_graph cubin_offset r of
        Inl f \<Rightarrow> Inl f
      | Inr access_type \<Rightarrow> Inr (default_access_type r access_type))"

text \<open>
  The value of unit \<open>m\<close> of lane \<open>j\<close>: \<open>memcpy\<close> of \<open>byte_size\<close> bytes from
  \<open>record->value[j][m * byte_size]\<close> into a zeroed \<open>uint64_t\<close>, little-endian.
\<close>

definition unit_value :: "gpu_patch_record \<Rightarrow> nat \<Rightarrow> nat \<Rightarrow> nat \<Rightarrow> u64" where
  "unit_value r j m byte_size =
     fold (\<lambda>b v. v OR push_bit (8 * b) (ucast (rec_value r j (m * byte_size + b))))
       [0..<byte_size] 0"

text \<open>
  One unit of one lane: the value is normalised and every enabled analysis updates the
  read or the write accumulators. The source iterates over the set of enabled analyses;
  the two analyses update different accumulators, so their order does not matter. (The
  two counters the source prints are left out.)
\<close>

definition analyze_unit ::
  "externals \<Rightarrow> globals \<Rightarrow> gpu_patch_record \<Rightarrow> nat \<Rightarrow> u64 \<Rightarrow> AccessKind \<Rightarrow> nat \<Rightarrow> Kernel \<Rightarrow> Kernel" where
  "analyze_unit ext g r j op_id unit_access_type m k =
     (let thread_id = lane_thread_id r j;
          byte_size = unat (drop_bit 3 (unit_size unit_access_type));
          v = unit_value r j m byte_size;
          v = store2basictype ext v unit_access_type (decimal_degree_f32 g) (decimal_degree_f64 g);
          k = (if REDSHOW_ANALYSIS_SPATIAL_REDUNDANCY \<in> analysis_enabled g then
                 (if GPU_PATCH_READ \<in> rec_flags r then
                    k\<lparr>read_spatial_trace :=
                        get_spatial_trace ext (rec_pc r) v op_id unit_access_type (read_spatial_trace k)\<rparr>
                  else
                    k\<lparr>write_spatial_trace :=
                        get_spatial_trace ext (rec_pc r) v op_id unit_access_type (write_spatial_trace k)\<rparr>)
               else k)
      in if REDSHOW_ANALYSIS_TEMPORAL_REDUNDANCY \<in> analysis_enabled g then
           (if GPU_PATCH_READ \<in> rec_flags r then
              (case get_temporal_trace ext (rec_pc r) thread_id (rec_address r j) v unit_access_type
                      (read_temporal_trace k) (read_pc_pairs k) of
                 (t, p) \<Rightarrow> k\<lparr>read_temporal_trace := t, read_pc_pairs := p\<rparr>)
            else
              (case get_temporal_trace ext (rec_pc r) thread_id (rec_address r j) v unit_access_type
                      (write_temporal_trace k) (write_pc_pairs k) of
                 (t, p) \<Rightarrow> k\<lparr>write_temporal_trace := t, write_pc_pairs := p\<rparr>))
         else k)"

text \<open>
  One lane of an access record. An inactive lane and a lane whose \<open>memory_op_id\<close>
  resolves to \<open>0\<close> are skipped. \<open>vec_size / unit_size\<close> divides by zero when
  \<open>unit_size\<close> is \<open>0\<close>; a unit of more than eight bytes does not fit the \<open>uint64_t\<close>
  the \<open>memcpy\<close> writes to.
\<close>

definition analyze_lane ::
  "externals \<Rightarrow> globals \<Rightarrow> MemoryMap \<Rightarrow> gpu_patch_record \<Rightarrow> AccessKind \<Rightarrow> nat \<Rightarrow> Kernel
    \<Rightarrow> Kernel \<times> failure option" where
  "analyze_lane ext g memory_map r access_type j k =
     (if \<not> lane_active r j then (k, None)
      else
        let op_id = resolve_memory_op_id memory_map r j
        in if op_id = 0 then (k, None)
           else if unit_size access_type = 0 then (k, Some DivideByZero)
           else
             let num_units = vec_size access_type div unit_size access_type;
                 unit_access_type = access_type\<lparr>vec_size := unit_size access_type\<rparr>
             in if num_units \<noteq> 0 \<and> 8 < unat (drop_bit 3 (unit_size unit_access_type)) then
                  (k, Some UndefinedBehaviour)
                else
                  (fold (analyze_unit ext g r j op_id unit_access_type) [0..<unat num_units] k,
                   None))"

text \<open>One record of the buffer, as the body of the loop of \<open>trace_analyze\<close>.\<close>

definition analyze_record ::
  "externals \<Rightarrow> globals \<Rightarrow> Symbol list \<Rightarrow> InstructionGraph \<Rightarrow> MemoryMap \<Rightarrow> gpu_patch_record
    \<Rightarrow> Kernel \<Rightarrow> Kernel \<times> failure option" where
  "analyze_record ext g symbols inst_graph memory_map r k =
     (if rec_size r = 0 then (k, None)
      else if GPU_PATCH_BLOCK_ENTER_FLAG \<in> rec_flags r then (k, None)
      else if GPU_PATCH_BLOCK_EXIT_FLAG \<in> rec_flags r then (block_exit r k, None)
      else
        (case transform_pc symbols (rec_pc r) (0, 0, 0) of
           (result, function_index, cubin_offset, pc_offset) \<Rightarrow>
             (case record_access_type ext inst_graph cubin_offset r of
                Inl f \<Rightarrow> (k, Some f)
              | Inr access_type \<Rightarrow>
                  for_each (analyze_lane ext g memory_map r access_type)
                    [0..<GPU_PATCH_WARP_SIZE] k)))"

text \<open>
  The cubin \<open>trace_analyze\<close> works on: the entry of the active map, or, when there is
  none and the cache has the id, the entry that \<open>redshow_cubin_register\<close> creates from the
  cached data, provided that call returns \<open>SUCCESS\<close>.
\<close>

definition resolve_cubin ::
  "externals \<Rightarrow> globals \<Rightarrow> u32 \<Rightarrow> (failure + redshow_result + Cubin) \<times> globals" where
  "resolve_cubin ext g cubin_id' =
     (case cubin_map g cubin_id' of
        Some cubin \<Rightarrow> (Inr (Inr cubin), g)
      | None \<Rightarrow>
          (case cubin_cache_map g cubin_id' of
             None \<Rightarrow> (Inr (Inl REDSHOW_ERROR_NOT_EXIST_ENTRY), g)
           | Some cubin_cache \<Rightarrow>
               (case redshow_cubin_register ext g cubin_id' (cc_nsymbols cubin_cache)
                       (\<lambda>i. cc_symbol_pcs cubin_cache ! i) (cc_path cubin_cache) of
                  (Inl f, g') \<Rightarrow> (Inl f, g')
                | (Inr result, g') \<Rightarrow>
                    if result = REDSHOW_SUCCESS then
                      (case cubin_map g' cubin_id' of
                         None \<Rightarrow> (Inr (Inl REDSHOW_ERROR_NOT_EXIST_ENTRY), g')
                       | Some cubin \<Rightarrow> (Inr (Inr cubin), g'))
                    else (Inr (Inl result), g'))))"

text \<open>
  \<open>trace_analyze\<close>. The kernel is passed by reference in the source; the model returns
  it, next to the outcome and the global state (which a lazy registration changes).
\<close>

definition trace_analyze ::
  "externals \<Rightarrow> globals \<Rightarrow> Kernel \<Rightarrow> u64 \<Rightarrow> gpu_patch_buffer
    \<Rightarrow> (failure + redshow_result) \<times> Kernel \<times> globals" where
  "trace_analyze ext g kern host_op_id trace_data =
     (case resolve_cubin ext g (cubin_id kern) of
        (Inl f, g') \<Rightarrow> (Inl f, kern, g')
      | (Inr (Inl result), g') \<Rightarrow> (Inr result, kern, g')
      | (Inr (Inr cubin), g') \<Rightarrow>
          (case select_snapshot (memory_snapshot g') host_op_id of
             None \<Rightarrow> (Inr REDSHOW_ERROR_NOT_EXIST_ENTRY, kern, g')
           | Some memory_map \<Rightarrow>
               (case for_each
                       (\<lambda>i. analyze_record ext g' (c_symbols cubin) (c_inst_graph cubin) memory_map
                              (records trace_data i))
                       [0..<unat (head_index trace_data)] kern of
                  (kern', None) \<Rightarrow> (Inr REDSHOW_SUCCESS, kern', g')
                | (kern', Some f) \<Rightarrow> (Inl f, kern', g'))))"

section \<open>Interface\<close>

definition redshow_analysis_enable :: "globals \<Rightarrow> redshow_analysis_type \<Rightarrow> redshow_result \<times> globals" where
  "redshow_analysis_enable g analysis_type =
     (REDSHOW_SUCCESS, g\<lparr>analysis_enabled := insert analysis_type (analysis_enabled g)\<rparr>)"

definition redshow_analysis_disable :: "globals \<Rightarrow> redshow_analysis_type \<Rightarrow> redshow_result \<times> globals" where
  "redshow_analysis_disable g analysis_type =
     (REDSHOW_SUCCESS, g\<lparr>analysis_enabled := analysis_enabled g - {analysis_type}\<rparr>)"

text \<open>
  \<open>kernel_map[thread_id]\<close> and \<open>thread_kernel_map[kernel_id]\<close>: \<open>operator[]\<close> gives the
  entry, a new empty map or a new value-initialised kernel when there is none.
\<close>

definition thread_kernel_map_at :: "globals \<Rightarrow> u32 \<Rightarrow> (u64 \<rightharpoonup> Kernel)" where
  "thread_kernel_map_at g thread_id =
     (case kernel_map g thread_id of None \<Rightarrow> Map.empty | Some m \<Rightarrow> m)"

definition kernel_at :: "(u64 \<rightharpoonup> Kernel) \<Rightarrow> u64 \<Rightarrow> Kernel" where
  "kernel_at thread_kernel_map kernel_id' =
     (case thread_kernel_map kernel_id' of None \<Rightarrow> Kernel_default | Some k \<Rightarrow> k)"

text \<open>
  \<open>redshow_analyze\<close>. The entries of the kernel map are created and the two ids stored
  before \<open>trace_analyze\<close> runs, and the kernel that \<open>trace_analyze\<close> worked on is the
  entry of the map afterwards, whatever the outcome.
\<close>

definition redshow_analyze ::
  "externals \<Rightarrow> globals \<Rightarrow> u32 \<Rightarrow> u32 \<Rightarrow> u64 \<Rightarrow> u64 \<Rightarrow> gpu_patch_buffer
    \<Rightarrow> (failure + redshow_result) \<times> globals" where
  "redshow_analyze ext g thread_id cubin_id' kernel_id' host_op_id trace_data =
     (let thread_kernel_map = thread_kernel_map_at g thread_id;
          kern = (kernel_at thread_kernel_map kernel_id')\<lparr>kernel_id := kernel_id', cubin_id := cubin_id'\<rparr>;
          g = g\<lparr>kernel_map := (kernel_map g)(thread_id \<mapsto> thread_kernel_map(kernel_id' \<mapsto> kern))\<rparr>
      in case trace_analyze ext g kern host_op_id trace_data of
           (result, kern, g) \<Rightarrow>
             let g = g\<lparr>kernel_map :=
                        (kernel_map g)(thread_id \<mapsto> thread_kernel_map(kernel_id' \<mapsto> kern))\<rparr>
             in (case result of
                   Inl f \<Rightarrow> (Inl f, g)
                 | Inr result \<Rightarrow>
                     if result = REDSHOW_SUCCESS then
                       (if log_data_callback g then
                          (Inr REDSHOW_SUCCESS,
                           g\<lparr>mini_host_op_id :=
                               (if mini_host_op_id g = 0 then host_op_id
                                else MIN2 (mini_host_op_id g) host_op_id)\<rparr>)
                        else (Inr REDSHOW_ERROR_NOT_REGISTER_CALLBACK, g))
                     else (Inr result, g)))"

section \<open>Memcpy redundancy (\<open>operation/memcpy.cpp\<close>)\<close>

text \<open>
  The two \<open>u64\<close> arguments are addresses of byte arrays; \<open>memory\<close> gives the byte at an
  address, and element \<open>i\<close> of the array at \<open>a\<close> is the byte at \<open>unat a + i\<close>. The
  counter \<open>same\<close> is a \<open>double\<close>: it holds every integer up to \<open>2 ^ 53\<close> exactly, and
  \<open>same += 1\<close> leaves \<open>2 ^ 53\<close> as it is, since \<open>2 ^ 53 + 1\<close> is not a \<open>double\<close> and
  rounds back to \<open>2 ^ 53\<close>. The loop is the sequential one (\<open>OPENMP\<close> not defined).
\<close>

type_synonym memory = "nat \<Rightarrow> u8"

definition double_add_one :: "nat \<Rightarrow> nat" where
  "double_add_one same = (if same < 2 ^ 53 then same + 1 else same)"

definition memcpy_redundancy_step :: "nat \<Rightarrow> nat \<Rightarrow> nat \<Rightarrow> memory \<times> nat \<Rightarrow> memory \<times> nat" where
  "memcpy_redundancy_step dst_ptr src_ptr i st =
     (case st of (mem, same) \<Rightarrow>
        if mem (dst_ptr + i) = mem (src_ptr + i) then (mem, double_add_one same)
        else (mem(dst_ptr + i := mem (src_ptr + i)), same))"

definition compute_memcpy_redundancy_true :: "memory \<Rightarrow> u64 \<Rightarrow> u64 \<Rightarrow> u64 \<Rightarrow> u64 \<times> memory" where
  "compute_memcpy_redundancy_true mem dst_start src_start len =
     (case fold (memcpy_redundancy_step (unat dst_start) (unat src_start)) [0..<unat len] (mem, 0) of
        (mem', same) \<Rightarrow> (of_nat same, mem'))"

section \<open>Example data\<close>

text \<open>
  An instance of the external functions under which no instruction file can be opened;
  the functions that are never reached then leave their arguments as they are, and the
  sort keeps symbols with equal pcs in the order they had.
\<close>

definition no_inst_files :: externals where
  "no_inst_files =
     \<lparr>file_good = (\<lambda>p. False),
      parse_instructions = (\<lambda>p symbols inst_graph. (False, symbols, inst_graph)),
      load_data_type = (\<lambda>pc inst_graph. AccessKind_default),
      store_data_type = (\<lambda>pc inst_graph. AccessKind_default),
      store2basictype = (\<lambda>v access_type d32 d64. v),
      get_spatial_trace = (\<lambda>pc v op_id access_type t. t),
      get_temporal_trace = (\<lambda>pc tid addr v access_type t p. (t, p)),
      sort_rank = (\<lambda>symbols i. i)\<rparr>"

text \<open>
  An instance under which every instruction file opens and parses to one function, at
  cubin offset \<open>0x100\<close>, whose only instruction is a load at that pc, of a type the
  graph does not disclose.
\<close>

definition one_inst_file :: externals where
  "one_inst_file =
     no_inst_files
       \<lparr>file_good := (\<lambda>p. True),
        parse_instructions := (\<lambda>p symbols inst_graph.
          (True, symbols[0 := \<lparr>sym_index = 0, sym_cubin_offset = 0x100, sym_pc = 0\<rparr>],
           inst_graph\<lparr>nodes :=
             [(0x100, \<lparr>inst_op = ''LDG'', inst_pc = 0x100, inst_predicate = - 1, inst_dsts = [0],
                   inst_srcs = [2], inst_assign_pcs = [], inst_access_kind = None\<rparr>)]\<rparr>))\<rparr>"

text \<open>
  The state of the first scenario of the spec: cubin 1 registered with one symbol at pc
  \<open>0x1000\<close>, the range \<open>[0x1000, 0x2000)\<close> registered at host operation 10 with memory
  id 42, and a log callback registered. Its record reads address \<open>0x1100\<close> in lane 0 at
  pc \<open>0x1010\<close>.
\<close>

definition scenario_globals :: "externals \<Rightarrow> globals" where
  "scenario_globals ext =
     (let g = snd (redshow_cubin_register ext initial_globals 1 1 (\<lambda>i. 0x1000) ''x/cubins/x.cubin'');
          g = snd (redshow_memory_register g 0x1000 0x2000 10 42)
      in g\<lparr>log_data_callback := True\<rparr>)"

definition scenario_record :: gpu_patch_record where
  "scenario_record =
     \<lparr>rec_pc = 0x1010, rec_size = 4, rec_active = 1, rec_flat_thread_id = 0,
      rec_flat_block_id = 0, rec_flags = {GPU_PATCH_READ}, rec_address = (\<lambda>j. 0x1100),
      rec_value = (\<lambda>j b. if b = 2 then 0x80 else if b = 3 then 0xBF else 0)\<rparr>"

section \<open>Properties of the containers\<close>

lemma vector_upper_bound_le: "vector_upper_bound lt xs v \<le> length xs"
  by (induction xs) auto

lemma vector_upper_bound_at:
  "sorted (map sym_pc xs) \<Longrightarrow> i < length xs \<Longrightarrow> sym_pc (xs ! i) \<le> p \<Longrightarrow>
   (Suc i < length xs \<Longrightarrow> p < sym_pc (xs ! Suc i)) \<Longrightarrow>
   vector_upper_bound Symbol_less xs (Symbol_of_pc p) = Suc i"
proof (induction xs arbitrary: i)
  case Nil
  then show ?case by simp
next
  case (Cons x xs)
  show ?case
  proof (cases i)
    case 0
    have here: "\<not> Symbol_less (Symbol_of_pc p) x"
      using Cons.prems(3) 0 by (simp add: Symbol_less_def Symbol_of_pc_def)
    have rest: "vector_upper_bound Symbol_less xs (Symbol_of_pc p) = 0"
    proof (cases xs)
      case Nil
      then show ?thesis by simp
    next
      case (Cons y ys)
      then have "p < sym_pc y" using Cons.prems(4) 0 by simp
      then show ?thesis using Cons by (simp add: Symbol_less_def Symbol_of_pc_def)
    qed
    show ?thesis using here rest 0 by simp
  next
    case (Suc j)
    have "sym_pc x \<le> sym_pc (xs ! j)"
      using Cons.prems(1,2) Suc by simp
    then have here: "\<not> Symbol_less (Symbol_of_pc p) x"
      using Cons.prems(3) Suc by (simp add: Symbol_less_def Symbol_of_pc_def)
    have "vector_upper_bound Symbol_less xs (Symbol_of_pc p) = Suc j"
      using Cons.IH [of j] Cons.prems Suc by simp
    then show ?thesis using here Suc by simp
  qed
qed

lemma vector_upper_bound_below:
  "sorted (map sym_pc xs) \<Longrightarrow> xs \<noteq> [] \<Longrightarrow> p < sym_pc (xs ! 0) \<Longrightarrow>
   vector_upper_bound Symbol_less xs (Symbol_of_pc p) = 0"
  by (cases xs) (simp_all add: Symbol_less_def Symbol_of_pc_def)

subsection \<open>\<open>std::sort\<close>\<close>

lemma map_insort_key:
  "map g (insort_key (\<lambda>e. f (g e)) x xs) = insort_key f (g x) (map g xs)"
  by (induction xs) simp_all

lemma map_sort_key:
  "map g (sort_key (\<lambda>e. f (g e)) xs) = sort_key f (map g xs)"
  by (induction xs) (simp_all add: map_insort_key)

lemma sort_key_map_insort_key:
  "(\<And>y. y \<in> set ys \<Longrightarrow> f (g x) = f (g y) \<Longrightarrow> g x = g y) \<Longrightarrow>
   sort_key f (map g (insort_key h x ys)) = insort_key f (g x) (sort_key f (map g ys))"
proof (induction ys)
  case Nil
  then show ?case by simp
next
  case (Cons y ys)
  show ?case
  proof (cases "h x \<le> h y")
    case True
    then show ?thesis by simp
  next
    case False
    have ih: "sort_key f (map g (insort_key h x ys)) = insort_key f (g x) (sort_key f (map g ys))"
      using Cons by simp
    have comm: "insort_key f (g y) (insort_key f (g x) (sort_key f (map g ys))) =
                insort_key f (g x) (insort_key f (g y) (sort_key f (map g ys)))"
    proof (cases "f (g x) = f (g y)")
      case True
      then have "g x = g y" using Cons.prems [of y] by simp
      then show ?thesis by simp
    next
      case False
      then show ?thesis by (simp add: insort_key_left_comm)
    qed
    show ?thesis using False by (simp add: ih comm)
  qed
qed

lemma sort_key_map_sort_key:
  "inj_on f (g ` set ys) \<Longrightarrow> sort_key f (map g (sort_key h ys)) = sort_key f (map g ys)"
proof (induction ys)
  case Nil
  then show ?case by simp
next
  case (Cons y ys)
  have inj: "inj_on f (g ` set ys)"
    using Cons.prems by (simp add: inj_on_def)
  have ih: "sort_key f (map g (sort_key h ys)) = sort_key f (map g ys)"
    using Cons.IH [OF inj] .
  have "sort_key f (map g (insort_key h y (sort_key h ys))) =
          insort_key f (g y) (sort_key f (map g (sort_key h ys)))"
  proof (rule sort_key_map_insort_key)
    fix z assume "z \<in> set (sort_key h ys)" and "f (g y) = f (g z)"
    then show "g y = g z"
      using Cons.prems by (auto simp add: inj_on_def)
  qed
  then show ?case by (simp add: ih)
qed

lemma snd_set_enumerate: "snd ` set (enumerate n xs) = set xs"
  using map_snd_enumerate [of n xs] by (metis set_map)

text \<open>The outcome of the sort is in ascending order of pc and holds the same symbols.\<close>

lemma std_sort_sorted: "sorted (map sym_pc (std_sort ext symbols))"
  by (simp add: std_sort_def comp_def)

lemma std_sort_set: "set (std_sort ext symbols) = set symbols"
  by (simp add: std_sort_def snd_set_enumerate)

lemma std_sort_length: "length (std_sort ext symbols) = length symbols"
  by (simp add: std_sort_def)

text \<open>
  Where symbols with equal pcs are equal, the library has no choice: the outcome is the
  sorted vector, whatever the ranks.
\<close>

lemma std_sort_inj:
  assumes "inj_on sym_pc (set symbols)"
  shows "std_sort ext symbols = sort_key sym_pc symbols"
proof -
  have "std_sort ext symbols =
          sort_key sym_pc (map snd (sort_key (\<lambda>e. sort_rank ext symbols (fst e)) (enumerate 0 symbols)))"
    unfolding std_sort_def by (rule map_sort_key)
  also have "\<dots> = sort_key sym_pc (map snd (enumerate 0 symbols))"
    by (rule sort_key_map_sort_key) (simp add: snd_set_enumerate assms)
  also have "\<dots> = sort_key sym_pc symbols"
    by (simp only: map_snd_enumerate)
  finally show ?thesis .
qed

lemma std_sort_Symbol_of_pc:
  "std_sort ext (map (\<lambda>i. Symbol_of_pc (pcs i)) is) = sort_key sym_pc (map (\<lambda>i. Symbol_of_pc (pcs i)) is)"
  by (rule std_sort_inj) (auto simp add: inj_on_def Symbol_of_pc_def)

text \<open>
  The outcomes of the sort are the arrangements of the positions of the vector in
  ascending order of pc: each outcome is one, and each of them is the outcome under
  some ranks.
\<close>

lemma set_enumerate_image: "set (enumerate 0 xs) = (\<lambda>i. (i, xs ! i)) ` {0..<length xs}"
  by (auto simp add: in_set_enumerate_eq image_iff prod_eq_iff)

lemma std_sort_permutation:
  "\<exists>ps. distinct ps \<and> set ps = {0..<length symbols} \<and>
        sorted (map (\<lambda>p. sym_pc (symbols ! p)) ps) \<and>
        std_sort ext symbols = map (\<lambda>p. symbols ! p) ps"
proof -
  define Z where "Z = sort_key (\<lambda>e. sym_pc (snd e))
     (sort_key (\<lambda>e. sort_rank ext symbols (fst e)) (enumerate 0 symbols))"
  have setZ: "set Z = (\<lambda>i. (i, symbols ! i)) ` {0..<length symbols}"
    by (simp add: Z_def set_enumerate_image)
  have snd: "map snd Z = map (\<lambda>p. symbols ! p) (map fst Z)"
    using setZ by auto
  have "distinct Z" by (simp add: Z_def distinct_enumerate)
  moreover have "inj_on fst (set Z)"
    unfolding setZ by (rule inj_onI) auto
  ultimately have d: "distinct (map fst Z)" by (simp add: distinct_map)
  have s: "set (map fst Z) = {0..<length symbols}"
    by (simp add: setZ image_image)
  have "map (\<lambda>p. sym_pc (symbols ! p)) (map fst Z) = map sym_pc (map (\<lambda>p. symbols ! p) (map fst Z))"
    by simp
  also have "\<dots> = map sym_pc (map snd Z)" by (simp only: snd)
  also have "\<dots> = map (\<lambda>e. sym_pc (snd e)) Z" by simp
  finally have eq: "map (\<lambda>p. sym_pc (symbols ! p)) (map fst Z) = map (\<lambda>e. sym_pc (snd e)) Z" .
  have "sorted (map (\<lambda>e. sym_pc (snd e)) Z)" by (simp add: Z_def)
  then have o: "sorted (map (\<lambda>p. sym_pc (symbols ! p)) (map fst Z))"
    by (simp only: eq)
  have "std_sort ext symbols = map (\<lambda>p. symbols ! p) (map fst Z)"
    using snd by (simp add: std_sort_def Z_def)
  then show ?thesis using d s o by blast
qed

lemma takeWhile_index:
  assumes "distinct ps" and "k < length ps"
  shows "length (takeWhile (\<lambda>p. p \<noteq> ps ! k) ps) = k"
proof -
  have "takeWhile (\<lambda>p. p \<noteq> ps ! k) ps = take k ps"
  proof (rule takeWhile_eq_take_P_nth)
    fix i assume "i < k" "i < length ps"
    then show "ps ! i \<noteq> ps ! k"
      using assms by (simp add: nth_eq_iff_index_eq)
  next
    show "\<not> ps ! k \<noteq> ps ! k" by simp
  qed
  then show ?thesis using assms by simp
qed

lemma std_sort_any_order:
  assumes d: "distinct ps" and s: "set ps = {0..<length symbols}"
    and o: "sorted (map (\<lambda>p. sym_pc (symbols ! p)) ps)"
  shows "std_sort (ext\<lparr>sort_rank := \<lambda>syms i. length (takeWhile (\<lambda>p. p \<noteq> i) ps)\<rparr>) symbols =
           map (\<lambda>p. symbols ! p) ps"
proof -
  define r where "r = (\<lambda>i. length (takeWhile (\<lambda>p. p \<noteq> i) ps))"
  define L where "L = sort_key (\<lambda>e. r (fst e)) (enumerate 0 symbols)"
  define M where "M = map (\<lambda>p. (p, symbols ! p)) ps"
  have rM: "map (\<lambda>e. r (fst e)) M = [0..<length ps]"
    by (rule nth_equalityI) (simp_all add: M_def r_def takeWhile_index [OF d])
  have setL: "set L = set (enumerate 0 symbols)" by (simp add: L_def)
  have setM: "set M = set (enumerate 0 symbols)"
    by (simp add: M_def set_enumerate_image s)
  have inj: "inj_on (\<lambda>e. r (fst e)) (set (enumerate 0 symbols))"
  proof (rule inj_onI)
    fix a b assume a: "a \<in> set (enumerate 0 symbols)" and b: "b \<in> set (enumerate 0 symbols)"
      and e: "r (fst a) = r (fst b)"
    have "a \<in> set M" "b \<in> set M" using a b by (simp_all add: setM)
    then obtain i j where i: "i < length ps" "a = (ps ! i, symbols ! (ps ! i))"
      and j: "j < length ps" "b = (ps ! j, symbols ! (ps ! j))"
      by (auto simp add: M_def in_set_conv_nth)
    have "i = j" using e i j by (simp add: r_def takeWhile_index [OF d])
    then show "a = b" using i j by simp
  qed
  have "distinct L" by (simp add: L_def distinct_enumerate)
  then have dL: "distinct (map (\<lambda>e. r (fst e)) L)"
    using inj by (simp add: distinct_map setL)
  have sL: "sorted (map (\<lambda>e. r (fst e)) L)" by (simp add: L_def)
  have "set (map (\<lambda>e. r (fst e)) L) = set (map (\<lambda>e. r (fst e)) M)"
    by (simp add: setL setM)
  then have "map (\<lambda>e. r (fst e)) L = map (\<lambda>e. r (fst e)) M"
    using sorted_distinct_set_unique [OF sL dL, of "map (\<lambda>e. r (fst e)) M"] rM by simp
  then have LM: "L = M"
    using inj inj_on_map_eq_map [of "\<lambda>e. r (fst e)" L M] by (simp add: setL setM)
  have "sort_key (\<lambda>e. sym_pc (snd e)) M = M"
    by (rule sort_key_id_if_sorted) (simp add: M_def comp_def o)
  then show ?thesis
    using LM by (simp add: std_sort_def L_def [symmetric] r_def [symmetric]) (simp add: M_def comp_def)
qed

section \<open>Properties of the maps\<close>

lemma upper_bound_le_length: "upper_bound lt m k \<le> length m"
  by (induction m) auto

lemma upper_bound_zero:
  fixes f :: "'k \<Rightarrow> 'o::linorder"
  assumes "sorted_wrt (<) (map (\<lambda>e. f (fst e)) m)"
    and "upper_bound (\<lambda>a b. f a < f b) m k = 0"
  shows "\<forall>e\<in>set m. f k < f (fst e)"
  using assms by (cases m) (auto split: if_splits)

lemma upper_bound_prev:
  fixes f :: "'k \<Rightarrow> 'o::linorder"
  assumes "sorted_wrt (<) (map (\<lambda>e. f (fst e)) m)"
    and "upper_bound (\<lambda>a b. f a < f b) m k = Suc n"
  shows "n < length m \<and> f (fst (m ! n)) \<le> f k \<and>
         (\<forall>e\<in>set m. f (fst e) \<le> f k \<longrightarrow> f (fst e) \<le> f (fst (m ! n)))"
  using assms
proof (induction m arbitrary: n)
  case Nil
  then show ?case by simp
next
  case (Cons e m)
  have here: "\<not> f k < f (fst e)" using Cons.prems(2) by (auto split: if_splits)
  have rest: "upper_bound (\<lambda>a b. f a < f b) m k = n" using Cons.prems(2) by (auto split: if_splits)
  have srt: "sorted_wrt (<) (map (\<lambda>e. f (fst e)) m)" and lt: "\<forall>e'\<in>set m. f (fst e) < f (fst e')"
    using Cons.prems(1) by simp_all
  show ?case
  proof (cases n)
    case 0
    have "\<forall>e'\<in>set m. f k < f (fst e')"
      using upper_bound_zero [OF srt] rest 0 by simp
    then show ?thesis using here 0 by auto
  next
    case (Suc n')
    have ih: "n' < length m \<and> f (fst (m ! n')) \<le> f k \<and>
         (\<forall>e\<in>set m. f (fst e) \<le> f k \<longrightarrow> f (fst e) \<le> f (fst (m ! n')))"
      using Cons.IH [OF srt] rest Suc by simp
    have "f (fst e) \<le> f (fst (m ! n'))" using lt ih by (simp add: less_imp_le)
    then show ?thesis using ih Suc by auto
  qed
qed

lemma map_find_None:
  fixes f :: "'k \<Rightarrow> 'o::linorder"
  shows "(map_find (\<lambda>a b. f a < f b) m k = None) = (\<forall>e\<in>set m. f (fst e) \<noteq> f k)"
  by (induction m) auto

lemma set_map_assign_new:
  fixes f :: "'k \<Rightarrow> 'o::linorder"
  assumes "\<forall>e\<in>set m. f (fst e) \<noteq> f k"
  shows "set (map_assign (\<lambda>a b. f a < f b) m k v) = insert (k, v) (set m)"
  using assms by (induction m) auto

lemma keys_map_assign:
  fixes f :: "'k \<Rightarrow> 'o::linorder"
  shows "x \<in> set (map_assign (\<lambda>a b. f a < f b) m k v) \<Longrightarrow> f (fst x) = f k \<or> x \<in> set m"
  by (induction m) (auto split: if_splits)

lemma sorted_map_assign:
  fixes f :: "'k \<Rightarrow> 'o::linorder"
  assumes "sorted_wrt (<) (map (\<lambda>e. f (fst e)) m)"
  shows "sorted_wrt (<) (map (\<lambda>e. f (fst e)) (map_assign (\<lambda>a b. f a < f b) m k v))"
  using assms
proof (induction m)
  case Nil
  then show ?case by simp
next
  case (Cons e m)
  show ?case
  proof (cases "f k < f (fst e)")
    case True
    then show ?thesis using Cons.prems by auto
  next
    case False
    show ?thesis
    proof (cases "f (fst e) < f k")
      case True
      have "\<forall>x\<in>set (map_assign (\<lambda>a b. f a < f b) m k v). f (fst e) < f (fst x)"
      proof
        fix x
        assume "x \<in> set (map_assign (\<lambda>a b. f a < f b) m k v)"
        then have "f (fst x) = f k \<or> x \<in> set m" by (rule keys_map_assign)
        then show "f (fst e) < f (fst x)" using Cons.prems True by auto
      qed
      then show ?thesis using Cons True False by simp
    next
      case False
      then show ?thesis using Cons.prems \<open>\<not> f k < f (fst e)\<close> by simp
    qed
  qed
qed

lemma map_of_map_assign:
  fixes k :: "'k::linorder"
  shows "map_of (map_assign (<) m k v) = (map_of m)(k \<mapsto> v)"
  by (induction m) (auto simp add: fun_eq_iff)

lemma sorted_keys_unique:
  fixes f :: "'k \<Rightarrow> 'o::linorder"
  assumes "sorted_wrt (<) (map (\<lambda>e. f (fst e)) m)" and "e \<in> set m" and "e' \<in> set m"
    and "f (fst e) = f (fst e')"
  shows "e = e'"
  using assms by (induction m) auto

lemma MemoryRange_less_eq: "MemoryRange_less = (\<lambda>a b. range_start a < range_start b)"
  by (simp add: fun_eq_iff MemoryRange_less_def)

lemma snapshot_base:
  fixes snaps :: "(u64 \<times> 'v) list"
  assumes "sorted_wrt (<) (map fst snaps)"
    and "(kb, base) \<in> set snaps" and "kb \<le> H"
    and "\<forall>e\<in>set snaps. fst e \<le> H \<longrightarrow> fst e \<le> kb"
  shows "upper_bound (<) snaps H \<noteq> 0 \<and> snaps ! (upper_bound (<) snaps H - 1) = (kb, base)"
proof -
  have nz: "upper_bound (<) snaps H \<noteq> 0"
  proof
    assume "upper_bound (<) snaps H = 0"
    then have "\<forall>e\<in>set snaps. H < fst e"
      using upper_bound_zero [where f = id, of snaps H] assms(1) by simp
    then show False using assms(2,3) by auto
  qed
  then obtain n where n: "upper_bound (<) snaps H = Suc n" by (cases "upper_bound (<) snaps H") auto
  have p: "n < length snaps \<and> fst (snaps ! n) \<le> H \<and>
         (\<forall>e\<in>set snaps. fst e \<le> H \<longrightarrow> fst e \<le> fst (snaps ! n))"
    using upper_bound_prev [where f = id, of snaps H n] assms(1) n by simp
  then have mem: "snaps ! n \<in> set snaps" by simp
  have "fst (snaps ! n) = kb"
    using p assms(2,3,4) mem by (metis antisym fst_conv)
  then have "snaps ! n = (kb, base)"
    using sorted_keys_unique [where f = id, of snaps "snaps ! n" "(kb, base)"] assms(1,2) mem by simp
  then show ?thesis using nz n by simp
qed

lemma snapshot_prev:
  fixes snaps :: "(u64 \<times> 'v) list"
  assumes "sorted_wrt (<) (map fst snaps)" and "upper_bound (<) snaps H \<noteq> 0"
  shows "snaps ! (upper_bound (<) snaps H - 1) \<in> set snaps \<and>
         fst (snaps ! (upper_bound (<) snaps H - 1)) \<le> H \<and>
         (\<forall>e\<in>set snaps. fst e \<le> H \<longrightarrow> fst e \<le> fst (snaps ! (upper_bound (<) snaps H - 1)))"
proof -
  obtain n where n: "upper_bound (<) snaps H = Suc n"
    using assms(2) by (cases "upper_bound (<) snaps H") auto
  have "n < length snaps \<and> fst (snaps ! n) \<le> H \<and>
         (\<forall>e\<in>set snaps. fst e \<le> H \<longrightarrow> fst e \<le> fst (snaps ! n))"
    using upper_bound_prev [where f = id, of snaps H n] assms(1) n by simp
  then show ?thesis using n by simp
qed

lemma memory_map_find:
  "(map_find MemoryRange_less m R = None) = (\<forall>e\<in>set m. range_start (fst e) \<noteq> range_start R)"
  using map_find_None [where f = range_start, of m R] by (simp add: MemoryRange_less_eq)

lemma memory_map_prev:
  assumes "sorted_wrt (<) (map (\<lambda>e. range_start (fst e)) mm)"
    and "upper_bound MemoryRange_less mm \<lparr>range_start = addr, range_end = addr\<rparr> \<noteq> 0"
  shows "mm ! (upper_bound MemoryRange_less mm \<lparr>range_start = addr, range_end = addr\<rparr> - 1) \<in> set mm \<and>
         range_start (fst (mm ! (upper_bound MemoryRange_less mm \<lparr>range_start = addr, range_end = addr\<rparr> - 1))) \<le> addr \<and>
         (\<forall>e\<in>set mm. range_start (fst e) \<le> addr \<longrightarrow>
            range_start (fst e) \<le>
              range_start (fst (mm ! (upper_bound MemoryRange_less mm \<lparr>range_start = addr, range_end = addr\<rparr> - 1))))"
proof -
  let ?q = "\<lparr>range_start = addr, range_end = addr\<rparr>"
  obtain n where n: "upper_bound MemoryRange_less mm ?q = Suc n"
    using assms(2) by (cases "upper_bound MemoryRange_less mm ?q") auto
  have "n < length mm \<and> range_start (fst (mm ! n)) \<le> range_start ?q \<and>
         (\<forall>e\<in>set mm. range_start (fst e) \<le> range_start ?q \<longrightarrow> range_start (fst e) \<le> range_start (fst (mm ! n)))"
    using upper_bound_prev [where f = range_start, of mm ?q n] assms(1) n
    by (simp add: MemoryRange_less_eq)
  then show ?thesis using n by simp
qed

lemma memory_map_below:
  assumes "\<forall>e\<in>set mm. addr < range_start (fst e)"
  shows "upper_bound MemoryRange_less mm \<lparr>range_start = addr, range_end = addr\<rparr> = 0"
  using assms by (cases mm) (simp_all add: MemoryRange_less_def)

section \<open>Properties of the registry\<close>

lemma inst_path_of_example: "inst_path_of ''x/cubins/x.cubin'' = Some ''x/structs/nvidia/x.cubin.inst''"
  by (simp add: inst_path_of_def string_rfind_def string_substr_def Let_def)

lemma assign_symbol_pcs_Suc:
  "assign_symbol_pcs syms pcs (Suc n) =
     (assign_symbol_pcs syms pcs n)[n := (assign_symbol_pcs syms pcs n ! n)\<lparr>sym_pc := pcs n\<rparr>]"
  by (simp add: assign_symbol_pcs_def)

lemma assign_symbol_pcs_eq:
  "n \<le> length syms \<Longrightarrow>
   assign_symbol_pcs syms pcs n =
     map (\<lambda>i. (syms ! i)\<lparr>sym_pc := pcs i\<rparr>) [0..<n] @ drop n syms"
proof (induction n)
  case 0
  then show ?case by (simp add: assign_symbol_pcs_def)
next
  case (Suc n)
  then have n: "n < length syms" by simp
  have ih: "assign_symbol_pcs syms pcs n =
     map (\<lambda>i. (syms ! i)\<lparr>sym_pc := pcs i\<rparr>) [0..<n] @ drop n syms"
    using Suc by simp
  have d: "drop n syms = syms ! n # drop (Suc n) syms"
    using n by (simp add: Cons_nth_drop_Suc)
  show ?case
    unfolding assign_symbol_pcs_Suc ih
    by (simp add: d list_update_append nth_append)
qed

lemma assign_symbol_pcs_replicate:
  "assign_symbol_pcs (replicate n (Symbol_of_pc 0)) pcs n = map (\<lambda>i. Symbol_of_pc (pcs i)) [0..<n]"
  using assign_symbol_pcs_eq [of n "replicate n (Symbol_of_pc 0)" pcs]
  by (simp add: Symbol_of_pc_def)

lemma redshow_cubin_register_kernel_map:
  "redshow_cubin_register ext (g\<lparr>kernel_map := km\<rparr>) cid n pcs path =
     (case redshow_cubin_register ext g cid n pcs path of (r, g') \<Rightarrow> (r, g'\<lparr>kernel_map := km\<rparr>))"
  by (auto simp add: redshow_cubin_register_def Let_def split: prod.splits)

lemma resolve_cubin_kernel_map:
  "resolve_cubin ext (g\<lparr>kernel_map := km\<rparr>) cid =
     (case resolve_cubin ext g cid of (r, g') \<Rightarrow> (r, g'\<lparr>kernel_map := km\<rparr>))"
  by (auto simp add: resolve_cubin_def redshow_cubin_register_kernel_map
      split: option.splits prod.splits sum.splits)

lemma redshow_cubin_register_frame:
  "redshow_cubin_register ext g cid n pcs path = (r, g') \<Longrightarrow>
   memory_snapshot g' = memory_snapshot g \<and> kernel_map g' = kernel_map g \<and>
   log_data_callback g' = log_data_callback g"
  by (auto simp add: redshow_cubin_register_def Let_def split: prod.splits if_splits)

lemma resolve_cubin_frame:
  "resolve_cubin ext g cid = (r, g') \<Longrightarrow>
   memory_snapshot g' = memory_snapshot g \<and> kernel_map g' = kernel_map g \<and>
   log_data_callback g' = log_data_callback g"
  by (auto simp add: resolve_cubin_def
      split: option.splits prod.splits sum.splits if_splits
      dest: redshow_cubin_register_frame)

section \<open>Properties of the trace analysis\<close>

lemma for_each_invariant:
  "(\<And>i s. P s \<Longrightarrow> P (fst (body i s))) \<Longrightarrow> P s \<Longrightarrow> P (fst (for_each body is s))"
proof (induction "is" arbitrary: s)
  case Nil
  then show ?case by simp
next
  case (Cons i "is")
  obtain s' r where b: "body i s = (s', r)" by (cases "body i s")
  have "P s'" using Cons.prems(1) [OF Cons.prems(2), of i] b by simp
  then show ?case
    using b Cons.IH [OF Cons.prems(1), of s'] by (cases r) simp_all
qed

lemma fold_invariant:
  "(\<And>i s. P s \<Longrightarrow> P (f i s)) \<Longrightarrow> P s \<Longrightarrow> P (fold f is s)"
  by (induction "is" arbitrary: s) simp_all

lemma analyze_unit_ids:
  "kernel_id k = a \<and> cubin_id k = b \<Longrightarrow>
   kernel_id (analyze_unit ext g r j op_id uat m k) = a \<and>
   cubin_id (analyze_unit ext g r j op_id uat m k) = b"
  by (simp add: analyze_unit_def Let_def split: prod.splits)

lemma analyze_lane_ids:
  "kernel_id k = a \<and> cubin_id k = b \<Longrightarrow>
   kernel_id (fst (analyze_lane ext g mm r at j k)) = a \<and>
   cubin_id (fst (analyze_lane ext g mm r at j k)) = b"
  by (simp add: analyze_lane_def Let_def analyze_unit_ids
      fold_invariant [where P = "\<lambda>k. kernel_id k = a \<and> cubin_id k = b"])

lemma block_exit_ids:
  "kernel_id k = a \<and> cubin_id k = b \<Longrightarrow>
   kernel_id (block_exit r k) = a \<and> cubin_id (block_exit r k) = b"
  unfolding block_exit_def
  by (rule fold_invariant [where P = "\<lambda>k. kernel_id k = a \<and> cubin_id k = b"])
    (simp_all add: block_exit_lane_def Let_def)

lemma analyze_record_ids:
  "kernel_id k = a \<and> cubin_id k = b \<Longrightarrow>
   kernel_id (fst (analyze_record ext g syms gr mm r k)) = a \<and>
   cubin_id (fst (analyze_record ext g syms gr mm r k)) = b"
  by (simp add: analyze_record_def block_exit_ids analyze_lane_ids
      for_each_invariant [where P = "\<lambda>k. kernel_id k = a \<and> cubin_id k = b"]
      split: prod.splits sum.splits)

lemma for_each_ids:
  fixes body :: "'i \<Rightarrow> Kernel \<Rightarrow> Kernel \<times> failure option"
  assumes "\<And>i s. kernel_id s = a \<and> cubin_id s = b \<Longrightarrow>
             kernel_id (fst (body i s)) = a \<and> cubin_id (fst (body i s)) = b"
    and "kernel_id k = a \<and> cubin_id k = b"
  shows "kernel_id (fst (for_each body is k)) = a \<and> cubin_id (fst (for_each body is k)) = b"
  apply (rule for_each_invariant [where P = "\<lambda>k. kernel_id k = a \<and> cubin_id k = b"])
   apply (rule assms(1))
   apply assumption
  apply (rule assms(2))
  done

lemma trace_analyze_ids:
  "kernel_id (fst (snd (trace_analyze ext g kern hop td))) = kernel_id kern \<and>
   cubin_id (fst (snd (trace_analyze ext g kern hop td))) = cubin_id kern"
proof -
  have loop: "kernel_id (fst (for_each (\<lambda>i. analyze_record ext g' syms gr mm (records td i)) is kern))
                = kernel_id kern \<and>
              cubin_id (fst (for_each (\<lambda>i. analyze_record ext g' syms gr mm (records td i)) is kern))
                = cubin_id kern"
    for g' syms gr mm and "is" :: "nat list"
    by (rule for_each_ids) (simp_all add: analyze_record_ids)
  show ?thesis
  proof (cases "resolve_cubin ext g (cubin_id kern)")
    case (Pair r g')
    show ?thesis
    proof (cases r)
      case (Inl f)
      then show ?thesis using Pair by (simp add: trace_analyze_def)
    next
      case (Inr rc)
      show ?thesis
      proof (cases rc)
        case (Inl code)
        then show ?thesis using Pair Inr by (simp add: trace_analyze_def)
      next
        case (Inr cubin)
        show ?thesis
        proof (cases "select_snapshot (memory_snapshot g') hop")
          case None
          then show ?thesis using Pair \<open>r = Inr rc\<close> Inr by (simp add: trace_analyze_def)
        next
          case (Some mm)
          obtain k' fo where fe:
            "for_each (\<lambda>i. analyze_record ext g' (c_symbols cubin) (c_inst_graph cubin) mm
                (records td i)) [0..<unat (head_index td)] kern = (k', fo)"
            by (cases "for_each (\<lambda>i. analyze_record ext g' (c_symbols cubin) (c_inst_graph cubin) mm
                (records td i)) [0..<unat (head_index td)] kern")
          have "kernel_id k' = kernel_id kern \<and> cubin_id k' = cubin_id kern"
            using loop [of g' "c_symbols cubin" "c_inst_graph cubin" mm "[0..<unat (head_index td)]"] fe
            by simp
          then show ?thesis
            using Pair \<open>r = Inr rc\<close> Inr Some fe
            by (cases fo) (simp_all add: trace_analyze_def)
        qed
      qed
    qed
  qed
qed

lemma redshow_analyze_eq:
  assumes "trace_analyze ext
             (g\<lparr>kernel_map := (kernel_map g)(tid \<mapsto> (thread_kernel_map_at g tid)(kid \<mapsto>
                (kernel_at (thread_kernel_map_at g tid) kid)\<lparr>kernel_id := kid, cubin_id := cid\<rparr>))\<rparr>)
             ((kernel_at (thread_kernel_map_at g tid) kid)\<lparr>kernel_id := kid, cubin_id := cid\<rparr>)
             hop td = (res, k', g')"
  shows "redshow_analyze ext g tid cid kid hop td =
          (case res of
             Inl f \<Rightarrow> (Inl f, g'\<lparr>kernel_map := (kernel_map g')(tid \<mapsto> (thread_kernel_map_at g tid)(kid \<mapsto> k'))\<rparr>)
           | Inr result \<Rightarrow>
               if result = REDSHOW_SUCCESS then
                 (if log_data_callback g' then
                    (Inr REDSHOW_SUCCESS,
                     g'\<lparr>kernel_map := (kernel_map g')(tid \<mapsto> (thread_kernel_map_at g tid)(kid \<mapsto> k')),
                        mini_host_op_id :=
                          (if mini_host_op_id g' = 0 then hop else MIN2 (mini_host_op_id g') hop)\<rparr>)
                  else (Inr REDSHOW_ERROR_NOT_REGISTER_CALLBACK,
                        g'\<lparr>kernel_map := (kernel_map g')(tid \<mapsto> (thread_kernel_map_at g tid)(kid \<mapsto> k'))\<rparr>))
               else (Inr result, g'\<lparr>kernel_map := (kernel_map g')(tid \<mapsto> (thread_kernel_map_at g tid)(kid \<mapsto> k'))\<rparr>))"
  unfolding redshow_analyze_def Let_def using assms by (simp split: sum.splits)

lemma block_exit_lane_traces:
  "read_temporal_trace (block_exit_lane r j k) =
     (\<lambda>t. if lane_active r j \<and> t = lane_thread_id r j then None else read_temporal_trace k t)"
  "write_temporal_trace (block_exit_lane r j k) =
     (\<lambda>t. if lane_active r j \<and> t = lane_thread_id r j then None else write_temporal_trace k t)"
  by (auto simp add: block_exit_lane_def Let_def fun_eq_iff)

lemma block_exit_lane_update:
  "(block_exit_lane r j k)\<lparr>read_temporal_trace := a, write_temporal_trace := b\<rparr> =
   k\<lparr>read_temporal_trace := a, write_temporal_trace := b\<rparr>"
  by (simp add: block_exit_lane_def Let_def)

lemma erase_twice:
  "(\<lambda>t. if \<exists>i\<in>set js. A i \<and> t = f i then None
        else (if A j \<and> t = f j then None else m t)) =
   (\<lambda>t. if \<exists>i\<in>set (j # js). A i \<and> t = f i then None else m t)"
  by (auto simp add: fun_eq_iff)

lemma fold_block_exit_lane:
  "fold (block_exit_lane r) js k =
     k\<lparr>read_temporal_trace :=
         (\<lambda>t. if \<exists>j\<in>set js. lane_active r j \<and> t = lane_thread_id r j then None
              else read_temporal_trace k t),
       write_temporal_trace :=
         (\<lambda>t. if \<exists>j\<in>set js. lane_active r j \<and> t = lane_thread_id r j then None
              else write_temporal_trace k t)\<rparr>"
proof (induction js arbitrary: k)
  case Nil
  then show ?case by simp
next
  case (Cons j js)
  have "fold (block_exit_lane r) (j # js) k = fold (block_exit_lane r) js (block_exit_lane r j k)"
    by simp
  also have "\<dots> =
     (block_exit_lane r j k)\<lparr>read_temporal_trace :=
         (\<lambda>t. if \<exists>j\<in>set js. lane_active r j \<and> t = lane_thread_id r j then None
              else read_temporal_trace (block_exit_lane r j k) t),
       write_temporal_trace :=
         (\<lambda>t. if \<exists>j\<in>set js. lane_active r j \<and> t = lane_thread_id r j then None
              else write_temporal_trace (block_exit_lane r j k) t)\<rparr>"
    by (rule Cons.IH)
  also have "\<dots> =
     k\<lparr>read_temporal_trace :=
         (\<lambda>t. if \<exists>i\<in>set (j # js). lane_active r i \<and> t = lane_thread_id r i then None
              else read_temporal_trace k t),
       write_temporal_trace :=
         (\<lambda>t. if \<exists>i\<in>set (j # js). lane_active r i \<and> t = lane_thread_id r i then None
              else write_temporal_trace k t)\<rparr>"
    unfolding block_exit_lane_update block_exit_lane_traces erase_twice ..
  finally show ?case .
qed

lemma MIN2_min: "MIN2 x y = min x y"
  by (auto simp add: MIN2_def min_def)

section \<open>Properties of the memcpy loop\<close>

lemma double_add_one_min: "B = 2 ^ 53 \<Longrightarrow> double_add_one (min c B) = min (Suc c) B"
  by (simp add: double_add_one_def min_def)

lemma memcpy_fold:
  assumes "d + n \<le> s \<or> s + n \<le> d" and B: "B = 2 ^ 53"
  shows "i \<le> n \<Longrightarrow>
    fold (memcpy_redundancy_step d s) [0..<i] (mem, 0) =
      ((\<lambda>a. if d \<le> a \<and> a < d + i then mem (s + (a - d)) else mem a),
       min (card {j. j < i \<and> mem (d + j) = mem (s + j)}) B)"
proof (induction i)
  case 0
  then show ?case by (auto simp add: fun_eq_iff)
next
  case (Suc i)
  let ?m = "\<lambda>a. if d \<le> a \<and> a < d + i then mem (s + (a - d)) else mem a"
  let ?c = "card {j. j < i \<and> mem (d + j) = mem (s + j)}"
  have ih: "fold (memcpy_redundancy_step d s) [0..<i] (mem, 0) = (?m, min ?c B)"
    using Suc by simp
  have di: "?m (d + i) = mem (d + i)" by simp
  have si: "?m (s + i) = mem (s + i)" using assms(1) Suc.prems by auto
  have fin: "finite {j. j < i \<and> mem (d + j) = mem (s + j)}" by simp
  have "fold (memcpy_redundancy_step d s) [0..<Suc i] (mem, 0) =
          memcpy_redundancy_step d s i (fold (memcpy_redundancy_step d s) [0..<i] (mem, 0))"
    by simp
  also have "\<dots> = memcpy_redundancy_step d s i (?m, min ?c B)"
    by (simp only: ih)
  also have "\<dots> = ((\<lambda>a. if d \<le> a \<and> a < d + Suc i then mem (s + (a - d)) else mem a),
       min (card {j. j < Suc i \<and> mem (d + j) = mem (s + j)}) B)"
  proof (cases "mem (d + i) = mem (s + i)")
    case True
    have set_eq: "{j. j < Suc i \<and> mem (d + j) = mem (s + j)} =
                  insert i {j. j < i \<and> mem (d + j) = mem (s + j)}"
      using True by (auto simp add: less_Suc_eq)
    have c: "card {j. j < Suc i \<and> mem (d + j) = mem (s + j)} = Suc ?c"
      unfolding set_eq using fin by simp
    have m: "(\<lambda>a. if d \<le> a \<and> a < d + Suc i then mem (s + (a - d)) else mem a) = ?m"
      using True by (auto simp add: fun_eq_iff less_Suc_eq)
    have "memcpy_redundancy_step d s i (?m, min ?c B) = (?m, double_add_one (min ?c B))"
      unfolding memcpy_redundancy_step_def using True di si by simp
    then show ?thesis
      unfolding c m double_add_one_min [OF B] .
  next
    case False
    have set_eq: "{j. j < Suc i \<and> mem (d + j) = mem (s + j)} =
                  {j. j < i \<and> mem (d + j) = mem (s + j)}"
      using False by (auto simp add: less_Suc_eq)
    have m: "(\<lambda>a. if d \<le> a \<and> a < d + Suc i then mem (s + (a - d)) else mem a) =
             ?m(d + i := mem (s + i))"
      by (auto simp add: fun_eq_iff less_Suc_eq)
    have "memcpy_redundancy_step d s i (?m, min ?c B) = (?m(d + i := mem (s + i)), min ?c B)"
      unfolding memcpy_redundancy_step_def using False di si by simp
    then show ?thesis
      unfolding set_eq m .
  qed
  finally show ?case .
qed

lemma compute_memcpy_redundancy_true_eq:
  assumes "unat dst_start + unat len \<le> unat src_start \<or> unat src_start + unat len \<le> unat dst_start"
  shows "compute_memcpy_redundancy_true mem dst_start src_start len =
     (of_nat (min (card {j. j < unat len \<and> mem (unat dst_start + j) = mem (unat src_start + j)}) (2 ^ 53)),
      (\<lambda>a. if unat dst_start \<le> a \<and> a < unat dst_start + unat len
            then mem (unat src_start + (a - unat dst_start)) else mem a))"
  unfolding compute_memcpy_redundancy_true_def
    memcpy_fold [OF assms refl order_refl, of mem]
  by simp

lemma card_below: "card {j. j < n \<and> P j} \<le> n"
proof -
  have "card {j. j < n \<and> P j} \<le> card {j. j < n}"
    by (rule card_mono) auto
  then show ?thesis by simp
qed

text \<open>Arrays of at most \<open>2 ^ 53\<close> bytes have at most \<open>2 ^ 53\<close> positions with equal bytes.\<close>

lemma memcpy_equal_positions_bound:
  "unat len \<le> 2 ^ 53 \<Longrightarrow>
   card {i. i < unat len \<and> mem (unat dst_start + i) = mem (unat src_start + i)} \<le> 2 ^ 53"
  using card_below [of "unat len" "\<lambda>i. mem (unat dst_start + i) = mem (unat src_start + i)"]
  by (rule order_trans)

section \<open>The order of the snapshots\<close>

text \<open>
  Every state that the interface reaches from the initial one has ordered snapshots:
  registering and unregistering memory keep the order, and registering a cubin and
  analyzing a trace do not touch the snapshots.
\<close>

lemma values_map_assign:
  "x \<in> set (map_assign lt m k v) \<Longrightarrow> snd x = v \<or> x \<in> set m"
  by (induction m) (auto split: if_splits)

lemma set_map_erase: "x \<in> set (map_erase lt m k) \<Longrightarrow> x \<in> set m"
  by (induction m) (auto split: if_splits)

lemma sorted_map_erase:
  "sorted_wrt (<) (map f m) \<Longrightarrow> sorted_wrt (<) (map f (map_erase lt m k))"
proof (induction m)
  case Nil
  then show ?case by simp
next
  case (Cons e m)
  have "\<forall>x\<in>set (map_erase lt m k). f e < f x"
    using Cons.prems set_map_erase [of _ lt m k] by auto
  then show ?case using Cons by simp
qed

lemma snapshots_ordered_assign:
  assumes "snapshots_ordered snaps"
    and "sorted_wrt (<) (map (\<lambda>e. range_start (fst e)) mm)"
  shows "snapshots_ordered (map_assign (<) snaps H mm)"
proof -
  have "sorted_wrt (<) (map fst (map_assign (<) snaps H mm))"
    using sorted_map_assign [where f = id, of snaps H mm] assms(1)
    by (simp add: snapshots_ordered_def)
  moreover have "\<forall>s\<in>set (map_assign (<) snaps H mm).
      sorted_wrt (<) (map (\<lambda>e. range_start (fst e)) (snd s))"
  proof
    fix s
    assume "s \<in> set (map_assign (<) snaps H mm)"
    then have "snd s = mm \<or> s \<in> set snaps" by (rule values_map_assign)
    then show "sorted_wrt (<) (map (\<lambda>e. range_start (fst e)) (snd s))"
      using assms by (auto simp add: snapshots_ordered_def)
  qed
  ultimately show ?thesis by (simp add: snapshots_ordered_def)
qed

lemma snapshots_ordered_initial: "snapshots_ordered (memory_snapshot initial_globals)"
  by (simp add: snapshots_ordered_def initial_globals_def)

lemma snapshots_ordered_nth:
  "snapshots_ordered snaps \<Longrightarrow> upper_bound (<) snaps H \<noteq> 0 \<Longrightarrow>
   sorted_wrt (<) (map (\<lambda>e. range_start (fst e)) (snd (snaps ! (upper_bound (<) snaps H - 1))))"
  using snapshot_prev [of snaps H] by (simp add: snapshots_ordered_def)

lemma redshow_memory_register_ordered:
  assumes "snapshots_ordered (memory_snapshot g)"
  shows "snapshots_ordered (memory_snapshot (snd (redshow_memory_register g start end' H mid)))"
proof -
  let ?R = "\<lparr>range_start = start, range_end = end'\<rparr>"
  let ?M = "\<lparr>memory_range = ?R, memory_op_id = H, memory_id = mid\<rparr>"
  have new: "sorted_wrt (<) (map (\<lambda>e. range_start (fst e)) (map_assign MemoryRange_less mm ?R ?M))"
    if "sorted_wrt (<) (map (\<lambda>e. range_start (fst e)) mm)" for mm
    using sorted_map_assign [where f = range_start, of mm ?R ?M] that
    by (simp add: MemoryRange_less_eq)
  show ?thesis
  proof (cases "memory_snapshot g = []")
    case True
    then show ?thesis
      using snapshots_ordered_assign [OF assms new [of "[]"], of H]
      by (simp add: redshow_memory_register_def Let_def)
  next
    case False
    show ?thesis
    proof (cases "upper_bound (<) (memory_snapshot g) H = 0")
      case True
      then show ?thesis using False assms by (simp add: redshow_memory_register_def Let_def)
    next
      case nz: False
      have "sorted_wrt (<) (map (\<lambda>e. range_start (fst e))
              (snd (memory_snapshot g ! (upper_bound (<) (memory_snapshot g) H - 1))))"
        using snapshots_ordered_nth [OF assms nz] .
      then show ?thesis
        using False nz assms snapshots_ordered_assign [OF assms new, of _ H]
        by (simp add: redshow_memory_register_def Let_def)
    qed
  qed
qed

lemma redshow_memory_unregister_ordered:
  assumes "snapshots_ordered (memory_snapshot g)"
  shows "snapshots_ordered (memory_snapshot (snd (redshow_memory_unregister g start end' H)))"
proof (cases "upper_bound (<) (memory_snapshot g) H = 0")
  case True
  then show ?thesis using assms by (simp add: redshow_memory_unregister_def Let_def)
next
  case nz: False
  have "sorted_wrt (<) (map (\<lambda>e. range_start (fst e))
          (snd (memory_snapshot g ! (upper_bound (<) (memory_snapshot g) H - 1))))"
    using snapshots_ordered_nth [OF assms nz] .
  then have "sorted_wrt (<) (map (\<lambda>e. range_start (fst e))
          (map_erase MemoryRange_less
             (snd (memory_snapshot g ! (upper_bound (<) (memory_snapshot g) H - 1))) R))" for R
    by (rule sorted_map_erase)
  then show ?thesis
    using nz assms snapshots_ordered_assign [OF assms, of _ H]
    by (simp add: redshow_memory_unregister_def Let_def)
qed

lemma trace_analyze_memory_snapshot:
  "memory_snapshot (snd (snd (trace_analyze ext g kern hop td))) = memory_snapshot g"
proof (cases "resolve_cubin ext g (cubin_id kern)")
  case (Pair r g')
  have "memory_snapshot g' = memory_snapshot g"
    using resolve_cubin_frame [OF Pair] by simp
  then show ?thesis
    using Pair by (simp add: trace_analyze_def split: sum.splits option.splits prod.splits)
qed

lemma redshow_analyze_memory_snapshot:
  "memory_snapshot (snd (redshow_analyze ext g tid cid kid hop td)) = memory_snapshot g"
proof -
  define k0 where
    "k0 = (kernel_at (thread_kernel_map_at g tid) kid)\<lparr>kernel_id := kid, cubin_id := cid\<rparr>"
  define g1 where "g1 = g\<lparr>kernel_map := (kernel_map g)(tid \<mapsto> (thread_kernel_map_at g tid)(kid \<mapsto> k0))\<rparr>"
  obtain res k' g' where ta: "trace_analyze ext g1 k0 hop td = (res, k', g')"
    by (cases "trace_analyze ext g1 k0 hop td")
  have "memory_snapshot g' = memory_snapshot g"
    using trace_analyze_memory_snapshot [of ext g1 k0 hop td] ta by (simp add: g1_def)
  then show ?thesis
    using redshow_analyze_eq [OF ta [unfolded g1_def k0_def]]
    by (simp split: sum.splits)
qed

section \<open>The example state\<close>

lemma scenario_memory_snapshot:
  "memory_snapshot (scenario_globals ext) =
     [(10, [(\<lparr>range_start = 0x1000, range_end = 0x2000\<rparr>,
             \<lparr>memory_range = \<lparr>range_start = 0x1000, range_end = 0x2000\<rparr>,
              memory_op_id = 10, memory_id = 42\<rparr>)])]"
proof -
  obtain r g where reg:
    "redshow_cubin_register ext initial_globals 1 1 (\<lambda>i. 0x1000) ''x/cubins/x.cubin'' = (r, g)"
    by (cases "redshow_cubin_register ext initial_globals 1 1 (\<lambda>i. 0x1000) ''x/cubins/x.cubin''")
  have "memory_snapshot g = []"
    using redshow_cubin_register_frame [OF reg] by (simp add: initial_globals_def)
  then show ?thesis
    by (simp add: scenario_globals_def reg redshow_memory_register_def Let_def)
qed

lemma scenario_cubin_map_no_inst:
  "cubin_map (scenario_globals no_inst_files) =
     [1 \<mapsto> \<lparr>c_cubin_id = 1, c_path = ''x/cubins/x.cubin'',
             c_symbols = [\<lparr>sym_index = 0, sym_cubin_offset = 0, sym_pc = 0x1000\<rparr>],
             c_inst_graph = InstructionGraph_empty\<rparr>]"
  by (simp add: scenario_globals_def redshow_cubin_register_def cubin_analyze_def
      inst_path_of_example no_inst_files_def initial_globals_def Let_def
      redshow_memory_register_def assign_symbol_pcs_def Symbol_of_pc_def std_sort_def)

lemma scenario_cubin_map_one_inst:
  "cubin_map (scenario_globals one_inst_file) =
     [1 \<mapsto> \<lparr>c_cubin_id = 1, c_path = ''x/cubins/x.cubin'',
             c_symbols = [\<lparr>sym_index = 0, sym_cubin_offset = 0x100, sym_pc = 0x1000\<rparr>],
             c_inst_graph = \<lparr>incoming_nodes = [], outgoing_nodes = [], nodes =
               [(0x100, \<lparr>inst_op = ''LDG'', inst_pc = 0x100, inst_predicate = - 1, inst_dsts = [0],
                   inst_srcs = [2], inst_assign_pcs = [], inst_access_kind = None\<rparr>)]\<rparr>\<rparr>]"
  by (simp add: scenario_globals_def redshow_cubin_register_def cubin_analyze_def
      inst_path_of_example one_inst_file_def no_inst_files_def initial_globals_def Let_def
      redshow_memory_register_def assign_symbol_pcs_def Symbol_of_pc_def InstructionGraph_empty_def
      std_sort_def)

lemma scenario_rest:
  "kernel_map (scenario_globals ext) = Map.empty"
  "log_data_callback (scenario_globals ext)"
proof -
  obtain r g where reg:
    "redshow_cubin_register ext initial_globals 1 1 (\<lambda>i. 0x1000) ''x/cubins/x.cubin'' = (r, g)"
    by (cases "redshow_cubin_register ext initial_globals 1 1 (\<lambda>i. 0x1000) ''x/cubins/x.cubin''")
  have "kernel_map g = Map.empty"
    using redshow_cubin_register_frame [OF reg] by (simp add: initial_globals_def)
  then show "kernel_map (scenario_globals ext) = Map.empty"
    by (simp add: scenario_globals_def reg redshow_memory_register_def Let_def)
  show "log_data_callback (scenario_globals ext)"
    by (simp add: scenario_globals_def Let_def)
qed

section \<open>Claims\<close>

subsection \<open>C1: the range that attributes an access\<close>

text \<open>
  C1, as amended. Let the snapshot keys be strictly increasing and every snapshot be
  ordered by range start, as the maps of the source are (\<open>snapshots_ordered\<close>, which
  holds in every state the interface reaches), and let \<open>trace_analyze\<close> select
  the snapshot \<open>memory_map\<close> for \<open>host_op_id\<close>. Then \<open>memory_map\<close> is the snapshot of the
  greatest key \<open>\<le> host_op_id\<close>. When the lookup of lane \<open>j\<close>'s address yields an id
  other than \<open>0\<close>, the id the analyzer uses is the \<open>memory_op_id\<close> of a range \<open>R\<close> of that
  snapshot with \<open>R.start \<le> address\<close>, and \<open>R\<close> has the greatest start among the ranges
  that start at or below the address; whether \<open>address < R.end\<close> is not checked. When the
  address is below the start of every range, no allocation is attributed: the id is the
  one of local or shared memory, or \<open>0\<close>, by the record's flags.
\<close>

theorem memory_lookup_greatest_start:
  assumes "sorted_wrt (<) (map fst snapshots)"
    and "\<forall>s\<in>set snapshots. sorted_wrt (<) (map (\<lambda>e. range_start (fst e)) (snd s))"
    and "select_snapshot snapshots host_op_id = Some memory_map"
  shows "(\<exists>key. (key, memory_map) \<in> set snapshots \<and> key \<le> host_op_id \<and>
            (\<forall>s\<in>set snapshots. fst s \<le> host_op_id \<longrightarrow> fst s \<le> key)) \<and>
         (memory_map_lookup memory_map (rec_address r j) \<noteq> 0 \<longrightarrow>
            (\<exists>R\<in>set memory_map.
               resolve_memory_op_id memory_map r j = memory_op_id (snd R) \<and>
               range_start (fst R) \<le> rec_address r j \<and>
               (\<forall>R'\<in>set memory_map. range_start (fst R') \<le> rec_address r j \<longrightarrow>
                  range_start (fst R') \<le> range_start (fst R)))) \<and>
         ((\<forall>R\<in>set memory_map. rec_address r j < range_start (fst R)) \<longrightarrow>
            resolve_memory_op_id memory_map r j =
              (if GPU_PATCH_LOCAL \<in> rec_flags r then MEMORY_ID_LOCAL
               else if GPU_PATCH_SHARED \<in> rec_flags r then MEMORY_ID_SHARED
               else 0))"
proof (intro conjI impI)
  let ?n = "upper_bound (<) snapshots host_op_id"
  have nz: "?n \<noteq> 0" and mm: "memory_map = snd (snapshots ! (?n - 1))"
    using assms(3) by (auto simp add: select_snapshot_def Let_def split: if_splits)
  have p: "snapshots ! (?n - 1) \<in> set snapshots \<and> fst (snapshots ! (?n - 1)) \<le> host_op_id \<and>
      (\<forall>e\<in>set snapshots. fst e \<le> host_op_id \<longrightarrow> fst e \<le> fst (snapshots ! (?n - 1)))"
    using snapshot_prev [OF assms(1) nz] .
  have "(fst (snapshots ! (?n - 1)), memory_map) \<in> set snapshots"
    using p mm by simp
  then show "\<exists>key. (key, memory_map) \<in> set snapshots \<and> key \<le> host_op_id \<and>
            (\<forall>s\<in>set snapshots. fst s \<le> host_op_id \<longrightarrow> fst s \<le> key)"
    using p by blast
  then have srt: "sorted_wrt (<) (map (\<lambda>e. range_start (fst e)) memory_map)"
    using assms(2) by auto
  {
    assume a: "memory_map_lookup memory_map (rec_address r j) \<noteq> 0"
    let ?i = "upper_bound MemoryRange_less memory_map
                \<lparr>range_start = rec_address r j, range_end = rec_address r j\<rparr>"
    have inz: "?i \<noteq> 0" using a by (auto simp add: memory_map_lookup_def Let_def split: if_splits)
    have "resolve_memory_op_id memory_map r j = memory_op_id (snd (memory_map ! (?i - 1)))"
      using a inz by (simp add: resolve_memory_op_id_def memory_map_lookup_def Let_def)
    then show "\<exists>R\<in>set memory_map.
               resolve_memory_op_id memory_map r j = memory_op_id (snd R) \<and>
               range_start (fst R) \<le> rec_address r j \<and>
               (\<forall>R'\<in>set memory_map. range_start (fst R') \<le> rec_address r j \<longrightarrow>
                  range_start (fst R') \<le> range_start (fst R))"
      using memory_map_prev [OF srt inz] by blast
  }
  {
    assume "\<forall>R\<in>set memory_map. rec_address r j < range_start (fst R)"
    then show "resolve_memory_op_id memory_map r j =
              (if GPU_PATCH_LOCAL \<in> rec_flags r then MEMORY_ID_LOCAL
               else if GPU_PATCH_SHARED \<in> rec_flags r then MEMORY_ID_SHARED
               else 0)"
      using memory_map_below [of memory_map "rec_address r j"]
      by (simp add: resolve_memory_op_id_def memory_map_lookup_def Let_def)
  }
qed

text \<open>
  In the example state at host operation 20, the access at \<open>0x1100\<close> gets the id 10 of
  the range \<open>[0x1000, 0x2000)\<close>, and an access to shared memory at \<open>0x500\<close>, below the
  range, gets the id of shared memory.
\<close>

theorem memory_lookup_greatest_start_witness:
  "select_snapshot (memory_snapshot (scenario_globals no_inst_files)) 20 =
     Some [(\<lparr>range_start = 0x1000, range_end = 0x2000\<rparr>,
            \<lparr>memory_range = \<lparr>range_start = 0x1000, range_end = 0x2000\<rparr>,
             memory_op_id = 10, memory_id = 42\<rparr>)] \<and>
   memory_map_lookup
     [(\<lparr>range_start = 0x1000, range_end = 0x2000\<rparr>,
       \<lparr>memory_range = \<lparr>range_start = 0x1000, range_end = 0x2000\<rparr>,
        memory_op_id = 10, memory_id = 42\<rparr>)] (rec_address scenario_record 0) \<noteq> 0 \<and>
   (\<exists>R\<in>set [(\<lparr>range_start = 0x1000, range_end = 0x2000\<rparr>,
       \<lparr>memory_range = \<lparr>range_start = 0x1000, range_end = 0x2000\<rparr>,
        memory_op_id = 10, memory_id = 42\<rparr>)].
      resolve_memory_op_id
        [(\<lparr>range_start = 0x1000, range_end = 0x2000\<rparr>,
          \<lparr>memory_range = \<lparr>range_start = 0x1000, range_end = 0x2000\<rparr>,
           memory_op_id = 10, memory_id = 42\<rparr>)] scenario_record 0 = memory_op_id (snd R) \<and>
      range_start (fst R) \<le> rec_address scenario_record 0) \<and>
   resolve_memory_op_id
     [(\<lparr>range_start = 0x1000, range_end = 0x2000\<rparr>,
       \<lparr>memory_range = \<lparr>range_start = 0x1000, range_end = 0x2000\<rparr>,
        memory_op_id = 10, memory_id = 42\<rparr>)]
     (scenario_record\<lparr>rec_flags := {GPU_PATCH_READ, GPU_PATCH_SHARED},
        rec_address := (\<lambda>j. 0x500)\<rparr>) 0 = MEMORY_ID_SHARED"
  using memory_lookup_greatest_start
    [of "memory_snapshot (scenario_globals no_inst_files)" 20
        "[(\<lparr>range_start = 0x1000, range_end = 0x2000\<rparr>,
            \<lparr>memory_range = \<lparr>range_start = 0x1000, range_end = 0x2000\<rparr>,
             memory_op_id = 10, memory_id = 42\<rparr>)]" scenario_record 0]
    memory_lookup_greatest_start
    [of "memory_snapshot (scenario_globals no_inst_files)" 20
        "[(\<lparr>range_start = 0x1000, range_end = 0x2000\<rparr>,
            \<lparr>memory_range = \<lparr>range_start = 0x1000, range_end = 0x2000\<rparr>,
             memory_op_id = 10, memory_id = 42\<rparr>)]"
        "scenario_record\<lparr>rec_flags := {GPU_PATCH_READ, GPU_PATCH_SHARED},
           rec_address := (\<lambda>j. 0x500)\<rparr>" 0]
  by (simp add: scenario_memory_snapshot select_snapshot_def memory_map_lookup_def
      MemoryRange_less_def scenario_record_def Let_def)

text \<open>
  C1 as stated fails: in the same snapshot an access at \<open>0x3000\<close>, which is in no
  range, is attributed to the allocation with id 10, whose range ends at \<open>0x2000\<close>, and
  the lane is analyzed under that id.
\<close>

theorem memory_lookup_outside_range_counterexample:
  "select_snapshot (memory_snapshot (scenario_globals no_inst_files)) 20 =
     Some [(\<lparr>range_start = 0x1000, range_end = 0x2000\<rparr>,
            \<lparr>memory_range = \<lparr>range_start = 0x1000, range_end = 0x2000\<rparr>,
             memory_op_id = 10, memory_id = 42\<rparr>)] \<and>
   resolve_memory_op_id
     [(\<lparr>range_start = 0x1000, range_end = 0x2000\<rparr>,
       \<lparr>memory_range = \<lparr>range_start = 0x1000, range_end = 0x2000\<rparr>,
        memory_op_id = 10, memory_id = 42\<rparr>)]
     (scenario_record\<lparr>rec_address := (\<lambda>j. 0x3000)\<rparr>) 0 = 10 \<and>
   \<not> (\<exists>R\<in>set [(\<lparr>range_start = 0x1000, range_end = 0x2000\<rparr>,
       \<lparr>memory_range = \<lparr>range_start = 0x1000, range_end = 0x2000\<rparr>,
        memory_op_id = 10, memory_id = 42\<rparr>)].
        range_start (fst R) \<le> (0x3000 :: u64) \<and> (0x3000 :: u64) < range_end (fst R)) \<and>
   analyze_lane no_inst_files (scenario_globals no_inst_files)
     [(\<lparr>range_start = 0x1000, range_end = 0x2000\<rparr>,
       \<lparr>memory_range = \<lparr>range_start = 0x1000, range_end = 0x2000\<rparr>,
        memory_op_id = 10, memory_id = 42\<rparr>)]
     (scenario_record\<lparr>rec_address := (\<lambda>j. 0x3000)\<rparr>)
     \<lparr>vec_size = 32, unit_size = 32, data_type = FLOAT\<rparr> 0 Kernel_default =
   (analyze_unit no_inst_files (scenario_globals no_inst_files)
      (scenario_record\<lparr>rec_address := (\<lambda>j. 0x3000)\<rparr>) 0 10
      \<lparr>vec_size = 32, unit_size = 32, data_type = FLOAT\<rparr> 0 Kernel_default, None)"
  by (simp add: scenario_memory_snapshot select_snapshot_def memory_map_lookup_def
      resolve_memory_op_id_def MemoryRange_less_def scenario_record_def Let_def
      analyze_lane_def lane_active_def drop_bit_eq_div)

subsection \<open>C2: registering a cubin without an instruction file\<close>

text \<open>
  C2, as amended. For a cubin id that is not in the active map and a path whose derived
  instruction file cannot be opened (or that has no \<open>/\<close>, so that no file is derived),
  \<open>redshow_cubin_register\<close> returns \<open>NO_SUCH_FILE\<close> and does enter the cubin in the
  active map: with the path, the \<open>nsymbols\<close> symbols \<open>(0, 0, symbol_pcs[i])\<close> sorted by
  pc, and an empty instruction graph. Nothing else of the state changes.
\<close>

theorem cubin_register_missing_inst:
  assumes "cubin_map g cid = None"
    and "\<forall>p. inst_path_of path = Some p \<longrightarrow> \<not> file_good ext p"
  shows "redshow_cubin_register ext g cid nsymbols symbol_pcs path =
     (Inr REDSHOW_ERROR_NO_SUCH_FILE,
      g\<lparr>cubin_map := (cubin_map g)(cid \<mapsto>
          \<lparr>c_cubin_id = cid, c_path = path,
           c_symbols = sort_key sym_pc (map (\<lambda>i. Symbol_of_pc (symbol_pcs i)) [0..<unat nsymbols]),
           c_inst_graph = InstructionGraph_empty\<rparr>)\<rparr>)"
proof -
  have "cubin_analyze ext path (replicate (unat nsymbols) (Symbol_of_pc 0)) InstructionGraph_empty =
          (REDSHOW_ERROR_NO_SUCH_FILE, replicate (unat nsymbols) (Symbol_of_pc 0), InstructionGraph_empty)"
    using assms(2) by (cases "inst_path_of path") (simp_all add: cubin_analyze_def)
  then show ?thesis
    using assms(1)
    by (simp add: redshow_cubin_register_def Let_def assign_symbol_pcs_replicate
        std_sort_Symbol_of_pc)
qed

text \<open>Cubin 1 with one symbol at \<open>0x1000\<close>, where no instruction file exists.\<close>

theorem cubin_register_missing_inst_witness:
  "redshow_cubin_register no_inst_files initial_globals 1 1 (\<lambda>i. 0x1000) ''x/cubins/x.cubin'' =
     (Inr REDSHOW_ERROR_NO_SUCH_FILE,
      initial_globals\<lparr>cubin_map := [1 \<mapsto>
          \<lparr>c_cubin_id = 1, c_path = ''x/cubins/x.cubin'',
           c_symbols = [\<lparr>sym_index = 0, sym_cubin_offset = 0, sym_pc = 0x1000\<rparr>],
           c_inst_graph = InstructionGraph_empty\<rparr>]\<rparr>)"
  using cubin_register_missing_inst
    [of initial_globals 1 "''x/cubins/x.cubin''" no_inst_files 1 "\<lambda>i. 0x1000"]
  by (simp add: inst_path_of_example no_inst_files_def initial_globals_def Symbol_of_pc_def)

text \<open>
  C2 as stated fails: at that input the call returns \<open>NO_SUCH_FILE\<close> and the active
  map has an entry for cubin 1 afterwards, which it had not before.
\<close>

theorem cubin_register_missing_inst_counterexample:
  "cubin_map initial_globals 1 = None \<and>
   inst_path_of ''x/cubins/x.cubin'' = Some ''x/structs/nvidia/x.cubin.inst'' \<and>
   \<not> file_good no_inst_files ''x/structs/nvidia/x.cubin.inst'' \<and>
   fst (redshow_cubin_register no_inst_files initial_globals 1 1 (\<lambda>i. 0x1000) ''x/cubins/x.cubin'')
     = Inr REDSHOW_ERROR_NO_SUCH_FILE \<and>
   cubin_map (snd (redshow_cubin_register no_inst_files initial_globals 1 1 (\<lambda>i. 0x1000)
       ''x/cubins/x.cubin'')) 1 \<noteq> cubin_map initial_globals 1"
  by (simp add: inst_path_of_example redshow_cubin_register_def cubin_analyze_def no_inst_files_def
      initial_globals_def Let_def)

subsection \<open>C3: the outcome of \<open>redshow_analyze\<close>\<close>

text \<open>
  C3 does not hold of the code. Cubin 1 is registered with an instruction file that gives
  one function, at cubin offset \<open>0x100\<close>, with one instruction, and its symbol is at pc
  \<open>0x1000\<close>. A read record at pc \<open>0x10\<close>, below the symbol, fails the pc translation and
  leaves \<open>cubin_offset = 0\<close>; a read record at pc \<open>0x1010\<close> translates to
  \<open>cubin_offset = 0x110\<close>. The graph has no node at either offset, \<open>node\<close> throws
  \<open>std::out_of_range\<close>, and \<open>redshow_analyze\<close> ends with that exception, not with a
  result code.
\<close>

theorem redshow_analyze_out_of_range:
  "fst (redshow_analyze one_inst_file (scenario_globals one_inst_file) 0 1 7 10
          \<lparr>head_index = 1, records = (\<lambda>i. scenario_record\<lparr>rec_pc := 0x10\<rparr>)\<rparr>) = Inl OutOfRange \<and>
   fst (redshow_analyze one_inst_file (scenario_globals one_inst_file) 0 1 7 10
          \<lparr>head_index = 1, records = (\<lambda>i. scenario_record)\<rparr>) = Inl OutOfRange"
  by (simp add: redshow_analyze_def trace_analyze_def resolve_cubin_def scenario_cubin_map_one_inst
      scenario_memory_snapshot scenario_rest select_snapshot_def thread_kernel_map_at_def
      kernel_at_def Let_def analyze_record_def scenario_record_def transform_pc_def
      Symbol_less_def Symbol_of_pc_def record_access_type_def graph_access_type_def
      graph_size_def node_def)

subsection \<open>C4: registering a memory range\<close>

text \<open>
  C4, as amended. Let the snapshot keys be strictly increasing, \<open>R = [start, end)\<close> and
  \<open>M\<close> the memory \<open>(R, memory_op_id = host_op_id, memory_id)\<close>. With no snapshot at all,
  \<open>redshow_memory_register\<close> succeeds and the only snapshot is \<open>host_op_id \<mapsto> {R \<mapsto> M}\<close>.
  With \<open>base\<close> the snapshot of the greatest key \<open>\<le> host_op_id\<close>: when \<open>base\<close> has a
  range with the same start (whatever its end), the call fails with \<open>DUPLICATE_ENTRY\<close> and
  the state is unchanged; otherwise it succeeds, the snapshot at \<open>host_op_id\<close> becomes
  \<open>base\<close> with \<open>R \<mapsto> M\<close> added, and every other snapshot is as before. With snapshots
  that all have keys above \<open>host_op_id\<close> the call fails with \<open>NOT_EXIST_ENTRY\<close> and the
  state is unchanged. \<open>DUPLICATE_ENTRY\<close> is returned in no other case.
\<close>

theorem memory_register_snapshot:
  assumes srt: "sorted_wrt (<) (map fst (memory_snapshot g))"
    and R: "R = \<lparr>range_start = start, range_end = end'\<rparr>"
    and M: "M = \<lparr>memory_range = R, memory_op_id = host_op_id, memory_id = memory_id'\<rparr>"
  shows
    "(memory_snapshot g = [] \<longrightarrow>
        redshow_memory_register g start end' host_op_id memory_id' =
          (REDSHOW_SUCCESS, g\<lparr>memory_snapshot := [(host_op_id, [(R, M)])]\<rparr>)) \<and>
     (\<forall>key base.
        (key, base) \<in> set (memory_snapshot g) \<and> key \<le> host_op_id \<and>
        (\<forall>e\<in>set (memory_snapshot g). fst e \<le> host_op_id \<longrightarrow> fst e \<le> key) \<longrightarrow>
          ((\<exists>e\<in>set base. range_start (fst e) = start) \<longrightarrow>
             redshow_memory_register g start end' host_op_id memory_id' = (REDSHOW_ERROR_DUPLICATE_ENTRY, g)) \<and>
          ((\<forall>e\<in>set base. range_start (fst e) \<noteq> start) \<longrightarrow>
             redshow_memory_register g start end' host_op_id memory_id' =
               (REDSHOW_SUCCESS,
                g\<lparr>memory_snapshot :=
                    map_assign (<) (memory_snapshot g) host_op_id (map_assign MemoryRange_less base R M)\<rparr>) \<and>
             map_of (map_assign (<) (memory_snapshot g) host_op_id (map_assign MemoryRange_less base R M)) =
               (map_of (memory_snapshot g))(host_op_id \<mapsto> map_assign MemoryRange_less base R M) \<and>
             set (map_assign MemoryRange_less base R M) = insert (R, M) (set base))) \<and>
     (memory_snapshot g \<noteq> [] \<and> (\<forall>e\<in>set (memory_snapshot g). host_op_id < fst e) \<longrightarrow>
        redshow_memory_register g start end' host_op_id memory_id' = (REDSHOW_ERROR_NOT_EXIST_ENTRY, g)) \<and>
     (fst (redshow_memory_register g start end' host_op_id memory_id') = REDSHOW_ERROR_DUPLICATE_ENTRY \<longrightarrow>
        (\<exists>key base. (key, base) \<in> set (memory_snapshot g) \<and> key \<le> host_op_id \<and>
           (\<forall>e\<in>set (memory_snapshot g). fst e \<le> host_op_id \<longrightarrow> fst e \<le> key) \<and>
           (\<exists>e\<in>set base. range_start (fst e) = start)))"
proof (intro conjI allI impI)
  assume "memory_snapshot g = []"
  then show "redshow_memory_register g start end' host_op_id memory_id' =
          (REDSHOW_SUCCESS, g\<lparr>memory_snapshot := [(host_op_id, [(R, M)])]\<rparr>)"
    by (simp add: redshow_memory_register_def Let_def R M)
next
  fix key base
  assume b: "(key, base) \<in> set (memory_snapshot g) \<and> key \<le> host_op_id \<and>
        (\<forall>e\<in>set (memory_snapshot g). fst e \<le> host_op_id \<longrightarrow> fst e \<le> key)"
  then have ne: "memory_snapshot g \<noteq> []" by auto
  have ub: "upper_bound (<) (memory_snapshot g) host_op_id \<noteq> 0"
    "snd (memory_snapshot g ! (upper_bound (<) (memory_snapshot g) host_op_id - 1)) = base"
    using snapshot_base [OF srt, of key base host_op_id] b by simp_all
  {
    assume "\<exists>e\<in>set base. range_start (fst e) = start"
    then have "map_find MemoryRange_less base R \<noteq> None"
      by (auto simp add: memory_map_find R)
    then show "redshow_memory_register g start end' host_op_id memory_id' = (REDSHOW_ERROR_DUPLICATE_ENTRY, g)"
      using ne ub by (simp add: redshow_memory_register_def Let_def R [symmetric])
  }
  {
    assume new: "\<forall>e\<in>set base. range_start (fst e) \<noteq> start"
    then have "map_find MemoryRange_less base R = None"
      by (auto simp add: memory_map_find R)
    then show "redshow_memory_register g start end' host_op_id memory_id' =
               (REDSHOW_SUCCESS,
                g\<lparr>memory_snapshot :=
                    map_assign (<) (memory_snapshot g) host_op_id (map_assign MemoryRange_less base R M)\<rparr>)"
      using ne ub by (simp add: redshow_memory_register_def Let_def R [symmetric] M [symmetric])
    show "map_of (map_assign (<) (memory_snapshot g) host_op_id (map_assign MemoryRange_less base R M)) =
               (map_of (memory_snapshot g))(host_op_id \<mapsto> map_assign MemoryRange_less base R M)"
      by (rule map_of_map_assign)
    show "set (map_assign MemoryRange_less base R M) = insert (R, M) (set base)"
      using set_map_assign_new [where f = range_start, of base R M] new
      by (simp add: MemoryRange_less_eq R)
  }
next
  assume "memory_snapshot g \<noteq> [] \<and> (\<forall>e\<in>set (memory_snapshot g). host_op_id < fst e)"
  moreover from this have "upper_bound (<) (memory_snapshot g) host_op_id = 0"
    by (cases "memory_snapshot g") auto
  ultimately show "redshow_memory_register g start end' host_op_id memory_id' = (REDSHOW_ERROR_NOT_EXIST_ENTRY, g)"
    by (simp add: redshow_memory_register_def Let_def)
next
  assume d: "fst (redshow_memory_register g start end' host_op_id memory_id') = REDSHOW_ERROR_DUPLICATE_ENTRY"
  let ?n = "upper_bound (<) (memory_snapshot g) host_op_id"
  have nz: "?n \<noteq> 0" and f: "map_find MemoryRange_less (snd (memory_snapshot g ! (?n - 1))) R \<noteq> None"
    using d by (auto simp add: redshow_memory_register_def Let_def R split: if_splits)
  have p: "memory_snapshot g ! (?n - 1) \<in> set (memory_snapshot g) \<and>
         fst (memory_snapshot g ! (?n - 1)) \<le> host_op_id \<and>
         (\<forall>e\<in>set (memory_snapshot g). fst e \<le> host_op_id \<longrightarrow> fst e \<le> fst (memory_snapshot g ! (?n - 1)))"
    using snapshot_prev [OF srt nz] .
  have "\<exists>e\<in>set (snd (memory_snapshot g ! (?n - 1))). range_start (fst e) = start"
    using f by (auto simp add: memory_map_find R)
  then show "\<exists>key base. (key, base) \<in> set (memory_snapshot g) \<and> key \<le> host_op_id \<and>
           (\<forall>e\<in>set (memory_snapshot g). fst e \<le> host_op_id \<longrightarrow> fst e \<le> key) \<and>
           (\<exists>e\<in>set base. range_start (fst e) = start)"
    using p by (intro exI [of _ "fst (memory_snapshot g ! (?n - 1))"]
        exI [of _ "snd (memory_snapshot g ! (?n - 1))"]) simp
qed

text \<open>
  On the example state, whose only snapshot is at key 10: a new range at host operation
  20, the same range again, a range at host operation 5, and the first registration.
\<close>

theorem memory_register_snapshot_witness:
  "redshow_memory_register (scenario_globals no_inst_files) 0x3000 0x4000 20 43 =
     (REDSHOW_SUCCESS,
      (scenario_globals no_inst_files)\<lparr>memory_snapshot :=
        [(10, [(\<lparr>range_start = 0x1000, range_end = 0x2000\<rparr>,
                \<lparr>memory_range = \<lparr>range_start = 0x1000, range_end = 0x2000\<rparr>,
                 memory_op_id = 10, memory_id = 42\<rparr>)]),
         (20, [(\<lparr>range_start = 0x1000, range_end = 0x2000\<rparr>,
                \<lparr>memory_range = \<lparr>range_start = 0x1000, range_end = 0x2000\<rparr>,
                 memory_op_id = 10, memory_id = 42\<rparr>),
               (\<lparr>range_start = 0x3000, range_end = 0x4000\<rparr>,
                \<lparr>memory_range = \<lparr>range_start = 0x3000, range_end = 0x4000\<rparr>,
                 memory_op_id = 20, memory_id = 43\<rparr>)])]\<rparr>) \<and>
   redshow_memory_register (scenario_globals no_inst_files) 0x1000 0x2000 20 43 =
     (REDSHOW_ERROR_DUPLICATE_ENTRY, scenario_globals no_inst_files) \<and>
   redshow_memory_register (scenario_globals no_inst_files) 0x3000 0x4000 5 43 =
     (REDSHOW_ERROR_NOT_EXIST_ENTRY, scenario_globals no_inst_files) \<and>
   redshow_memory_register initial_globals 0x1000 0x2000 10 42 =
     (REDSHOW_SUCCESS,
      initial_globals\<lparr>memory_snapshot :=
        [(10, [(\<lparr>range_start = 0x1000, range_end = 0x2000\<rparr>,
                \<lparr>memory_range = \<lparr>range_start = 0x1000, range_end = 0x2000\<rparr>,
                 memory_op_id = 10, memory_id = 42\<rparr>)])]\<rparr>)"
  using memory_register_snapshot
    [of "scenario_globals no_inst_files" "\<lparr>range_start = 0x3000, range_end = 0x4000\<rparr>"
        "0x3000" "0x4000"
        "\<lparr>memory_range = \<lparr>range_start = 0x3000, range_end = 0x4000\<rparr>,
          memory_op_id = 20, memory_id = 43\<rparr>" 20 43]
    memory_register_snapshot
    [of "scenario_globals no_inst_files" "\<lparr>range_start = 0x1000, range_end = 0x2000\<rparr>"
        "0x1000" "0x2000"
        "\<lparr>memory_range = \<lparr>range_start = 0x1000, range_end = 0x2000\<rparr>,
          memory_op_id = 20, memory_id = 43\<rparr>" 20 43]
    memory_register_snapshot
    [of "scenario_globals no_inst_files" "\<lparr>range_start = 0x3000, range_end = 0x4000\<rparr>"
        "0x3000" "0x4000"
        "\<lparr>memory_range = \<lparr>range_start = 0x3000, range_end = 0x4000\<rparr>,
          memory_op_id = 5, memory_id = 43\<rparr>" 5 43]
    memory_register_snapshot
    [of initial_globals "\<lparr>range_start = 0x1000, range_end = 0x2000\<rparr>"
        "0x1000" "0x2000"
        "\<lparr>memory_range = \<lparr>range_start = 0x1000, range_end = 0x2000\<rparr>,
          memory_op_id = 10, memory_id = 42\<rparr>" 10 42]
  by (simp add: scenario_memory_snapshot MemoryRange_less_def initial_globals_def)

text \<open>
  C4 as stated fails: the base snapshot holds \<open>[0x1000, 0x2000)\<close> and not
  \<open>[0x1000, 0x3000)\<close>, yet registering \<open>[0x1000, 0x3000)\<close> fails with
  \<open>DUPLICATE_ENTRY\<close>, since the two ranges have the same start.
\<close>

theorem memory_register_same_start_counterexample:
  "select_snapshot (memory_snapshot (scenario_globals no_inst_files)) 20 =
     Some [(\<lparr>range_start = 0x1000, range_end = 0x2000\<rparr>,
            \<lparr>memory_range = \<lparr>range_start = 0x1000, range_end = 0x2000\<rparr>,
             memory_op_id = 10, memory_id = 42\<rparr>)] \<and>
   \<lparr>range_start = 0x1000, range_end = 0x3000\<rparr> \<notin>
     fst ` set [(\<lparr>range_start = 0x1000, range_end = 0x2000\<rparr>,
            \<lparr>memory_range = \<lparr>range_start = 0x1000, range_end = 0x2000\<rparr>,
             memory_op_id = 10, memory_id = 42\<rparr>)] \<and>
   redshow_memory_register (scenario_globals no_inst_files) 0x1000 0x3000 20 43 =
     (REDSHOW_ERROR_DUPLICATE_ENTRY, scenario_globals no_inst_files)"
  by (simp add: scenario_memory_snapshot select_snapshot_def redshow_memory_register_def
      MemoryRange_less_def Let_def)

subsection \<open>C5: the round trip of \<open>transform_pc\<close>\<close>

text \<open>
  C5, as amended. For a symbol vector sorted strictly by pc, a position \<open>i\<close> in it and a pc from
  \<open>symbols[i].pc\<close> up to, and not including, the pc of the next symbol (any pc from
  \<open>symbols[i].pc\<close> on for the last symbol), \<open>transform_pc\<close> succeeds and returns the
  \<open>index\<close> field of \<open>symbols[i]\<close> as function index (not the position \<open>i\<close>),
  \<open>cubin_offset = symbols[i].cubin_offset + k\<close> and \<open>pc_offset = k\<close>, where
  \<open>k = pc - symbols[i].pc\<close>. For a pc below \<open>symbols[0].pc\<close> it fails with
  \<open>NOT_EXIST_ENTRY\<close> and the outputs keep the values they had.
\<close>

theorem transform_pc_round_trip:
  assumes "sorted_wrt (<) (map sym_pc symbols)"
  shows "(i < length symbols \<and> sym_pc (symbols ! i) \<le> pc \<and>
           (Suc i < length symbols \<longrightarrow> pc < sym_pc (symbols ! Suc i)) \<longrightarrow>
          transform_pc symbols pc outs =
            (REDSHOW_SUCCESS, sym_index (symbols ! i),
             sym_cubin_offset (symbols ! i) + (pc - sym_pc (symbols ! i)),
             pc - sym_pc (symbols ! i))) \<and>
         (symbols \<noteq> [] \<and> pc < sym_pc (symbols ! 0) \<longrightarrow>
          transform_pc symbols pc outs = (REDSHOW_ERROR_NOT_EXIST_ENTRY, outs))"
proof (intro conjI impI)
  have srt: "sorted (map sym_pc symbols)"
    using assms by (rule strict_sorted_imp_sorted)
  {
    assume h: "i < length symbols \<and> sym_pc (symbols ! i) \<le> pc \<and>
           (Suc i < length symbols \<longrightarrow> pc < sym_pc (symbols ! Suc i))"
    then have "vector_upper_bound Symbol_less symbols (Symbol_of_pc pc) = Suc i"
      using vector_upper_bound_at [OF srt, of i pc] by blast
    then show "transform_pc symbols pc outs =
           (REDSHOW_SUCCESS, sym_index (symbols ! i),
            sym_cubin_offset (symbols ! i) + (pc - sym_pc (symbols ! i)),
            pc - sym_pc (symbols ! i))"
      by (simp add: transform_pc_def Let_def add.commute)
  }
  {
    assume "symbols \<noteq> [] \<and> pc < sym_pc (symbols ! 0)"
    then show "transform_pc symbols pc outs = (REDSHOW_ERROR_NOT_EXIST_ENTRY, outs)"
      using vector_upper_bound_below [OF srt, of pc]
      by (simp add: transform_pc_def Let_def)
  }
qed

text \<open>
  The round trip at two symbols, \<open>(index 1, cubin_offset 0x40, pc 0x1000)\<close> and
  \<open>(index 0, cubin_offset 0, pc 0x2000)\<close>: a pc inside the first, and a pc below both.
\<close>

theorem transform_pc_round_trip_witness:
  "transform_pc
     [\<lparr>sym_index = 1, sym_cubin_offset = 0x40, sym_pc = 0x1000\<rparr>,
      \<lparr>sym_index = 0, sym_cubin_offset = 0, sym_pc = 0x2000\<rparr>] 0x1010 (7, 8, 9)
     = (REDSHOW_SUCCESS, 1, 0x50, 0x10) \<and>
   transform_pc
     [\<lparr>sym_index = 1, sym_cubin_offset = 0x40, sym_pc = 0x1000\<rparr>,
      \<lparr>sym_index = 0, sym_cubin_offset = 0, sym_pc = 0x2000\<rparr>] 0xfff (7, 8, 9)
     = (REDSHOW_ERROR_NOT_EXIST_ENTRY, 7, 8, 9)"
  using transform_pc_round_trip
    [of "[\<lparr>sym_index = 1, sym_cubin_offset = 0x40, sym_pc = 0x1000\<rparr>,
          \<lparr>sym_index = 0, sym_cubin_offset = 0, sym_pc = 0x2000\<rparr>]" 0 "0x1010" "(7, 8, 9)"]
    transform_pc_round_trip
    [of "[\<lparr>sym_index = 1, sym_cubin_offset = 0x40, sym_pc = 0x1000\<rparr>,
          \<lparr>sym_index = 0, sym_cubin_offset = 0, sym_pc = 0x2000\<rparr>]" 0 "0xfff" "(7, 8, 9)"]
  by simp

text \<open>
  C5 as stated fails: with the single symbol \<open>(index 5, cubin_offset 0, pc 0x100)\<close> at
  position \<open>0\<close> and \<open>k = 0\<close>, the function index returned is \<open>5\<close>, not the position.
\<close>

theorem transform_pc_position_counterexample:
  "sorted_wrt (<) (map sym_pc [\<lparr>sym_index = 5, sym_cubin_offset = 0, sym_pc = 0x100\<rparr>]) \<and>
   transform_pc [\<lparr>sym_index = 5, sym_cubin_offset = 0, sym_pc = 0x100\<rparr>] (0x100 + 0) (0, 0, 0)
     = (REDSHOW_SUCCESS, 5, 0, 0) \<and>
   transform_pc [\<lparr>sym_index = 5, sym_cubin_offset = 0, sym_pc = 0x100\<rparr>] (0x100 + 0) (0, 0, 0)
     \<noteq> (REDSHOW_SUCCESS, 0, 0 + 0, 0)"
  by (simp add: transform_pc_def Symbol_less_def Symbol_of_pc_def)

subsection \<open>C6: the default access kind\<close>

text \<open>
  C6. For a record with \<open>size \<noteq> 0\<close> and neither the \<open>BLOCK_ENTER\<close> nor the \<open>BLOCK_EXIT\<close>
  flag, when the instruction graph is empty or the access kind derived from the graph has
  type \<open>UNKNOWN\<close>, the lanes of the record are analyzed with the access kind
  \<open>type = FLOAT\<close>, \<open>vec_size = record.size * 8\<close>,
  \<open>unit_size = min(WARP_SIZE, vec_size * 8)\<close> (32-bit unsigned arithmetic).
\<close>

theorem default_access_kind:
  assumes "rec_size r \<noteq> 0"
    and "GPU_PATCH_BLOCK_ENTER_FLAG \<notin> rec_flags r"
    and "GPU_PATCH_BLOCK_EXIT_FLAG \<notin> rec_flags r"
    and "graph_size inst_graph = 0 \<or>
         (\<exists>a. graph_access_type ext inst_graph
                (fst (snd (snd (transform_pc symbols (rec_pc r) (0, 0, 0))))) r = Inr a \<and>
              data_type a = UNKNOWN)"
  shows "analyze_record ext g symbols inst_graph memory_map r k =
     for_each
       (analyze_lane ext g memory_map r
          \<lparr>vec_size = rec_size r * 8,
           unit_size = min (of_nat GPU_PATCH_WARP_SIZE) (rec_size r * 8 * 8),
           data_type = FLOAT\<rparr>)
       [0..<GPU_PATCH_WARP_SIZE] k"
proof -
  obtain res fi co po where tp: "transform_pc symbols (rec_pc r) (0, 0, 0) = (res, fi, co, po)"
    by (cases "transform_pc symbols (rec_pc r) (0, 0, 0)")
  have "record_access_type ext inst_graph co r =
          Inr \<lparr>vec_size = rec_size r * 8,
           unit_size = min (of_nat GPU_PATCH_WARP_SIZE) (rec_size r * 8 * 8),
           data_type = FLOAT\<rparr>"
    using assms(4) tp
    by (auto simp add: record_access_type_def graph_access_type_def default_access_type_def
        AccessKind_default_def MIN2_min Let_def)
  then show ?thesis
    using assms(1-3) tp by (simp add: analyze_record_def)
qed

text \<open>
  The record of the example, of size 4: with an empty graph, and with a graph whose
  instruction at the record's offset has a type that is not known. The vector and the unit
  have 32 bits in both.
\<close>

theorem default_access_kind_witness:
  "analyze_record no_inst_files (scenario_globals no_inst_files)
     [\<lparr>sym_index = 0, sym_cubin_offset = 0, sym_pc = 0x1000\<rparr>] InstructionGraph_empty
     [] scenario_record Kernel_default =
   for_each
     (analyze_lane no_inst_files (scenario_globals no_inst_files) [] scenario_record
        \<lparr>vec_size = 32, unit_size = 32, data_type = FLOAT\<rparr>)
     [0..<GPU_PATCH_WARP_SIZE] Kernel_default \<and>
   analyze_record one_inst_file (scenario_globals one_inst_file)
     [\<lparr>sym_index = 0, sym_cubin_offset = 0x100, sym_pc = 0x1000\<rparr>]
     \<lparr>incoming_nodes = [], outgoing_nodes = [], nodes =
        [(0x100, \<lparr>inst_op = ''LDG'', inst_pc = 0x100, inst_predicate = - 1, inst_dsts = [0],
                   inst_srcs = [2], inst_assign_pcs = [], inst_access_kind = None\<rparr>)]\<rparr>
     [] (scenario_record\<lparr>rec_pc := 0x1000\<rparr>) Kernel_default =
   for_each
     (analyze_lane one_inst_file (scenario_globals one_inst_file) []
        (scenario_record\<lparr>rec_pc := 0x1000\<rparr>)
        \<lparr>vec_size = 32, unit_size = 32, data_type = FLOAT\<rparr>)
     [0..<GPU_PATCH_WARP_SIZE] Kernel_default"
proof -
  let ?g = "\<lparr>incoming_nodes = [], outgoing_nodes = [], nodes =
        [(0x100, \<lparr>inst_op = ''LDG'', inst_pc = 0x100, inst_predicate = - 1, inst_dsts = [0],
                   inst_srcs = [2], inst_assign_pcs = [], inst_access_kind = None\<rparr>)]\<rparr>"
  let ?r = "scenario_record\<lparr>rec_pc := 0x1000\<rparr>"
  have size: "rec_size scenario_record \<noteq> 0"
    and enter: "GPU_PATCH_BLOCK_ENTER_FLAG \<notin> rec_flags scenario_record"
    and exit: "GPU_PATCH_BLOCK_EXIT_FLAG \<notin> rec_flags scenario_record"
    by (simp_all add: scenario_record_def)
  have graph: "graph_size InstructionGraph_empty = 0 \<or>
         (\<exists>a. graph_access_type no_inst_files InstructionGraph_empty
                (fst (snd (snd (transform_pc [\<lparr>sym_index = 0, sym_cubin_offset = 0, sym_pc = 0x1000\<rparr>]
                   (rec_pc scenario_record) (0, 0, 0))))) scenario_record = Inr a \<and>
              data_type a = UNKNOWN)"
    by (simp add: graph_size_def InstructionGraph_empty_def)
  have size': "rec_size ?r \<noteq> 0"
    and enter': "GPU_PATCH_BLOCK_ENTER_FLAG \<notin> rec_flags ?r"
    and exit': "GPU_PATCH_BLOCK_EXIT_FLAG \<notin> rec_flags ?r"
    by (simp_all add: scenario_record_def)
  have "graph_access_type one_inst_file ?g
                (fst (snd (snd (transform_pc [\<lparr>sym_index = 0, sym_cubin_offset = 0x100, sym_pc = 0x1000\<rparr>]
                   (rec_pc ?r) (0, 0, 0))))) ?r = Inr AccessKind_default"
    by (simp add: graph_access_type_def graph_size_def node_def transform_pc_def
        Symbol_less_def Symbol_of_pc_def scenario_record_def one_inst_file_def no_inst_files_def)
  then have graph': "graph_size ?g = 0 \<or>
         (\<exists>a. graph_access_type one_inst_file ?g
                (fst (snd (snd (transform_pc [\<lparr>sym_index = 0, sym_cubin_offset = 0x100, sym_pc = 0x1000\<rparr>]
                   (rec_pc ?r) (0, 0, 0))))) ?r = Inr a \<and>
              data_type a = UNKNOWN)"
    by (simp add: AccessKind_default_def)
  have kind: "\<lparr>vec_size = rec_size scenario_record * 8,
           unit_size = min (of_nat GPU_PATCH_WARP_SIZE) (rec_size scenario_record * 8 * 8),
           data_type = FLOAT\<rparr> = \<lparr>vec_size = 32, unit_size = 32, data_type = FLOAT\<rparr>"
    "\<lparr>vec_size = rec_size ?r * 8,
           unit_size = min (of_nat GPU_PATCH_WARP_SIZE) (rec_size ?r * 8 * 8),
           data_type = FLOAT\<rparr> = \<lparr>vec_size = 32, unit_size = 32, data_type = FLOAT\<rparr>"
    by (simp_all add: scenario_record_def GPU_PATCH_WARP_SIZE_def)
  show ?thesis
    using default_access_kind [OF size enter exit graph, of "scenario_globals no_inst_files" "[]" Kernel_default]
      default_access_kind [OF size' enter' exit' graph', of "scenario_globals one_inst_file" "[]" Kernel_default]
    unfolding kind by simp
qed

subsection \<open>C7: a \<open>BLOCK_EXIT\<close> record\<close>

text \<open>
  C7, as amended. On a record with \<open>size \<noteq> 0\<close> that has the \<open>BLOCK_EXIT\<close> flag and not
  the \<open>BLOCK_ENTER\<close> flag, the kernel after the record is the kernel before it with, in
  the read and in the write temporal trace, the entries of the threads
  \<open>(flat_block_id, flat_thread_id / WARP_SIZE * WARP_SIZE + j)\<close> of the active lanes \<open>j\<close>
  removed. Every other entry of the two traces and every other field of the kernel is as
  before, and the record does not fail.
\<close>

theorem block_exit_erases_threads:
  assumes "rec_size r \<noteq> 0"
    and "GPU_PATCH_BLOCK_ENTER_FLAG \<notin> rec_flags r"
    and "GPU_PATCH_BLOCK_EXIT_FLAG \<in> rec_flags r"
  shows "analyze_record ext g symbols inst_graph memory_map r k =
     (k\<lparr>read_temporal_trace :=
         (\<lambda>t. if \<exists>j<GPU_PATCH_WARP_SIZE. lane_active r j \<and> t = lane_thread_id r j then None
              else read_temporal_trace k t),
       write_temporal_trace :=
         (\<lambda>t. if \<exists>j<GPU_PATCH_WARP_SIZE. lane_active r j \<and> t = lane_thread_id r j then None
              else write_temporal_trace k t)\<rparr>, None)"
  using assms by (simp add: analyze_record_def block_exit_def fold_block_exit_lane Bex_def)

text \<open>
  A record of block 1, thread 35, with lanes 0 and 2 active: the entry of thread
  \<open>(1, 32)\<close> is removed, that of thread \<open>(2, 32)\<close> stays.
\<close>

theorem block_exit_erases_threads_witness:
  "read_temporal_trace
     (fst (analyze_record no_inst_files (scenario_globals no_inst_files) [] InstructionGraph_empty []
        (scenario_record\<lparr>rec_flags := {GPU_PATCH_BLOCK_EXIT_FLAG}, rec_active := 5,
           rec_flat_thread_id := 35, rec_flat_block_id := 1\<rparr>)
        (Kernel_default\<lparr>read_temporal_trace :=
           [\<lparr>flat_block_id = 1, flat_thread_id = 32\<rparr> \<mapsto> [0x1100 \<mapsto> (0x1010, 7)],
            \<lparr>flat_block_id = 2, flat_thread_id = 32\<rparr> \<mapsto> [0x1100 \<mapsto> (0x1010, 7)]]\<rparr>)))
     \<lparr>flat_block_id = 1, flat_thread_id = 32\<rparr> = None \<and>
   read_temporal_trace
     (fst (analyze_record no_inst_files (scenario_globals no_inst_files) [] InstructionGraph_empty []
        (scenario_record\<lparr>rec_flags := {GPU_PATCH_BLOCK_EXIT_FLAG}, rec_active := 5,
           rec_flat_thread_id := 35, rec_flat_block_id := 1\<rparr>)
        (Kernel_default\<lparr>read_temporal_trace :=
           [\<lparr>flat_block_id = 1, flat_thread_id = 32\<rparr> \<mapsto> [0x1100 \<mapsto> (0x1010, 7)],
            \<lparr>flat_block_id = 2, flat_thread_id = 32\<rparr> \<mapsto> [0x1100 \<mapsto> (0x1010, 7)]]\<rparr>)))
     \<lparr>flat_block_id = 2, flat_thread_id = 32\<rparr> = Some [0x1100 \<mapsto> (0x1010, 7)]"
proof -
  let ?r = "scenario_record\<lparr>rec_flags := {GPU_PATCH_BLOCK_EXIT_FLAG}, rec_active := 5,
           rec_flat_thread_id := 35, rec_flat_block_id := 1\<rparr>"
  let ?k = "Kernel_default\<lparr>read_temporal_trace :=
           [\<lparr>flat_block_id = 1, flat_thread_id = 32\<rparr> \<mapsto> [0x1100 \<mapsto> (0x1010, 7)],
            \<lparr>flat_block_id = 2, flat_thread_id = 32\<rparr> \<mapsto> [0x1100 \<mapsto> (0x1010, 7)]]\<rparr>"
  have size: "rec_size ?r \<noteq> 0"
    and enter: "GPU_PATCH_BLOCK_ENTER_FLAG \<notin> rec_flags ?r"
    and exit: "GPU_PATCH_BLOCK_EXIT_FLAG \<in> rec_flags ?r"
    by (simp_all add: scenario_record_def)
  have lane0: "\<exists>j<GPU_PATCH_WARP_SIZE. lane_active ?r j \<and>
                 \<lparr>flat_block_id = 1, flat_thread_id = 32\<rparr> = lane_thread_id ?r j"
    by (rule exI [of _ 0])
      (simp add: scenario_record_def lane_active_def lane_thread_id_def GPU_PATCH_WARP_SIZE_def)
  have other: "\<not> (\<exists>j<GPU_PATCH_WARP_SIZE. lane_active ?r j \<and>
                 \<lparr>flat_block_id = 2, flat_thread_id = 32\<rparr> = lane_thread_id ?r j)"
    by (simp add: scenario_record_def lane_thread_id_def)
  show ?thesis
    unfolding block_exit_erases_threads
      [OF size enter exit, of no_inst_files "scenario_globals no_inst_files" "[]"
        InstructionGraph_empty "[]" ?k]
    using lane0 other by simp
qed

text \<open>
  C7 as stated fails: a record with the \<open>BLOCK_EXIT\<close> flag, lane 0 active and
  \<open>size = 0\<close> is skipped, and the entry of its thread \<open>(0, 0)\<close> stays in the read temporal
  trace; so it does for a record of size 4 that has the \<open>BLOCK_ENTER\<close> flag as well.
\<close>

theorem block_exit_empty_record_counterexample:
  "GPU_PATCH_BLOCK_EXIT_FLAG \<in>
     rec_flags (scenario_record\<lparr>rec_flags := {GPU_PATCH_BLOCK_EXIT_FLAG}, rec_size := 0\<rparr>) \<and>
   lane_active (scenario_record\<lparr>rec_flags := {GPU_PATCH_BLOCK_EXIT_FLAG}, rec_size := 0\<rparr>) 0 \<and>
   lane_thread_id (scenario_record\<lparr>rec_flags := {GPU_PATCH_BLOCK_EXIT_FLAG}, rec_size := 0\<rparr>) 0 =
     \<lparr>flat_block_id = 0, flat_thread_id = 0\<rparr> \<and>
   read_temporal_trace
     (fst (analyze_record no_inst_files (scenario_globals no_inst_files) [] InstructionGraph_empty []
        (scenario_record\<lparr>rec_flags := {GPU_PATCH_BLOCK_EXIT_FLAG}, rec_size := 0\<rparr>)
        (Kernel_default\<lparr>read_temporal_trace :=
           [\<lparr>flat_block_id = 0, flat_thread_id = 0\<rparr> \<mapsto> [0x1100 \<mapsto> (0x1010, 7)]]\<rparr>)))
     \<lparr>flat_block_id = 0, flat_thread_id = 0\<rparr> = Some [0x1100 \<mapsto> (0x1010, 7)] \<and>
   read_temporal_trace
     (fst (analyze_record no_inst_files (scenario_globals no_inst_files) [] InstructionGraph_empty []
        (scenario_record\<lparr>rec_flags := {GPU_PATCH_BLOCK_ENTER_FLAG, GPU_PATCH_BLOCK_EXIT_FLAG}\<rparr>)
        (Kernel_default\<lparr>read_temporal_trace :=
           [\<lparr>flat_block_id = 0, flat_thread_id = 0\<rparr> \<mapsto> [0x1100 \<mapsto> (0x1010, 7)]]\<rparr>)))
     \<lparr>flat_block_id = 0, flat_thread_id = 0\<rparr> = Some [0x1100 \<mapsto> (0x1010, 7)]"
  by (simp add: analyze_record_def scenario_record_def lane_active_def lane_thread_id_def
      GPU_PATCH_WARP_SIZE_def)

subsection \<open>C8: an empty trace buffer\<close>

text \<open>
  C8, as amended. When \<open>head_index\<close> is 0, the cubin id resolves to a cubin (from the
  active map, or through a lazy registration that succeeds), a snapshot with key
  \<open>\<le> host_op_id\<close> exists and a log callback is registered, \<open>redshow_analyze\<close> returns
  \<open>SUCCESS\<close>, and the kernel map afterwards is the one before with the entry
  \<open>[thread_id][kernel_id]\<close> set to the kernel that was there (a new one with empty
  accumulators when there was none) with the two ids stored: no accumulator changes.
\<close>

theorem redshow_analyze_empty_buffer:
  assumes "head_index trace_data = 0"
    and "fst (resolve_cubin ext g cubin_id') = Inr (Inr cubin)"
    and "select_snapshot (memory_snapshot g) host_op_id = Some memory_map"
    and "log_data_callback g"
  shows "fst (redshow_analyze ext g thread_id cubin_id' kernel_id' host_op_id trace_data) = Inr REDSHOW_SUCCESS \<and>
         kernel_map (snd (redshow_analyze ext g thread_id cubin_id' kernel_id' host_op_id trace_data)) =
           (kernel_map g)(thread_id \<mapsto> (thread_kernel_map_at g thread_id)(kernel_id' \<mapsto>
              (kernel_at (thread_kernel_map_at g thread_id) kernel_id')\<lparr>kernel_id := kernel_id', cubin_id := cubin_id'\<rparr>))"
proof -
  define k0 where
    "k0 = (kernel_at (thread_kernel_map_at g thread_id) kernel_id')\<lparr>kernel_id := kernel_id', cubin_id := cubin_id'\<rparr>"
  define km where "km = (kernel_map g)(thread_id \<mapsto> (thread_kernel_map_at g thread_id)(kernel_id' \<mapsto> k0))"
  obtain r g' where rc: "resolve_cubin ext g cubin_id' = (r, g')" by (cases "resolve_cubin ext g cubin_id'")
  have r: "r = Inr (Inr cubin)" using assms(2) rc by simp
  have fr: "memory_snapshot g' = memory_snapshot g" "kernel_map g' = kernel_map g"
    "log_data_callback g' = log_data_callback g"
    using resolve_cubin_frame [OF rc] by simp_all
  have ta: "trace_analyze ext (g\<lparr>kernel_map := km\<rparr>) k0 host_op_id trace_data =
              (Inr REDSHOW_SUCCESS, k0, g'\<lparr>kernel_map := km\<rparr>)"
    using assms(1,3) rc r fr
    by (simp add: trace_analyze_def resolve_cubin_kernel_map k0_def)
  show ?thesis
    using redshow_analyze_eq [OF ta [unfolded km_def k0_def]] assms(4) fr
    by (simp add: k0_def)
qed

text \<open>The example state with an empty buffer at host operation 10.\<close>

theorem redshow_analyze_empty_buffer_witness:
  "fst (redshow_analyze no_inst_files (scenario_globals no_inst_files) 0 1 7 10
          \<lparr>head_index = 0, records = (\<lambda>i. scenario_record)\<rparr>) = Inr REDSHOW_SUCCESS \<and>
   kernel_map (snd (redshow_analyze no_inst_files (scenario_globals no_inst_files) 0 1 7 10
          \<lparr>head_index = 0, records = (\<lambda>i. scenario_record)\<rparr>)) =
     [0 \<mapsto> [7 \<mapsto> Kernel_default\<lparr>kernel_id := 7, cubin_id := 1\<rparr>]]"
  using redshow_analyze_empty_buffer
    [of "\<lparr>head_index = 0, records = (\<lambda>i. scenario_record)\<rparr>" no_inst_files
        "scenario_globals no_inst_files" 1
        "\<lparr>c_cubin_id = 1, c_path = ''x/cubins/x.cubin'',
             c_symbols = [\<lparr>sym_index = 0, sym_cubin_offset = 0, sym_pc = 0x1000\<rparr>],
             c_inst_graph = InstructionGraph_empty\<rparr>" 10
        "[(\<lparr>range_start = 0x1000, range_end = 0x2000\<rparr>,
             \<lparr>memory_range = \<lparr>range_start = 0x1000, range_end = 0x2000\<rparr>,
              memory_op_id = 10, memory_id = 42\<rparr>)]" 0 7]
  by (simp add: resolve_cubin_def scenario_cubin_map_no_inst scenario_memory_snapshot
      scenario_rest select_snapshot_def thread_kernel_map_at_def kernel_at_def)

text \<open>
  C8 as stated fails: with an empty buffer and cubin 1 in the active map, the call
  returns \<open>NOT_EXIST_ENTRY\<close> at host operation 5, which is before every snapshot, and
  \<open>NOT_REGISTER_CALLBACK\<close> when no log callback is registered.
\<close>

theorem redshow_analyze_empty_buffer_counterexample:
  "head_index \<lparr>head_index = 0, records = (\<lambda>i. scenario_record)\<rparr> = 0 \<and>
   cubin_map (scenario_globals no_inst_files) 1 \<noteq> None \<and>
   fst (redshow_analyze no_inst_files (scenario_globals no_inst_files) 0 1 7 5
          \<lparr>head_index = 0, records = (\<lambda>i. scenario_record)\<rparr>) = Inr REDSHOW_ERROR_NOT_EXIST_ENTRY \<and>
   fst (redshow_analyze no_inst_files
          ((scenario_globals no_inst_files)\<lparr>log_data_callback := False\<rparr>) 0 1 7 10
          \<lparr>head_index = 0, records = (\<lambda>i. scenario_record)\<rparr>) =
     Inr REDSHOW_ERROR_NOT_REGISTER_CALLBACK"
  by (simp add: redshow_analyze_def trace_analyze_def resolve_cubin_def scenario_cubin_map_no_inst
      scenario_memory_snapshot scenario_rest select_snapshot_def thread_kernel_map_at_def
      kernel_at_def Let_def)

subsection \<open>C9: \<open>compute_memcpy_redundancy<true>\<close>\<close>

text \<open>
  C9. For two byte arrays of length \<open>len\<close> that do not overlap, the call returns the
  number of positions \<open>i < len\<close> with \<open>dst[i] = src[i]\<close> before the call; afterwards
  \<open>dst[i]\<close> is the byte \<open>src[i]\<close> had, \<open>src\<close> is unchanged, and so is every byte
  outside \<open>dst\<close>. The arrays are arrays in the memory of a machine: the count is stated
  for arrays of which at most \<open>2 ^ 53\<close> positions hold equal bytes, which all arrays of
  up to \<open>2 ^ 53\<close> bytes (8 PiB) each are, and up to which the \<open>double\<close> counter is exact.
\<close>

theorem memcpy_redundancy_count_and_copy:
  assumes "unat dst_start + unat len \<le> unat src_start \<or> unat src_start + unat len \<le> unat dst_start"
    and "card {i. i < unat len \<and> mem (unat dst_start + i) = mem (unat src_start + i)} \<le> 2 ^ 53"
  shows "unat (fst (compute_memcpy_redundancy_true mem dst_start src_start len)) =
           card {i. i < unat len \<and> mem (unat dst_start + i) = mem (unat src_start + i)} \<and>
         (\<forall>i<unat len.
            snd (compute_memcpy_redundancy_true mem dst_start src_start len) (unat dst_start + i) =
              mem (unat src_start + i) \<and>
            snd (compute_memcpy_redundancy_true mem dst_start src_start len) (unat src_start + i) =
              mem (unat src_start + i)) \<and>
         (\<forall>a. \<not> (unat dst_start \<le> a \<and> a < unat dst_start + unat len) \<longrightarrow>
            snd (compute_memcpy_redundancy_true mem dst_start src_start len) a = mem a)"
proof -
  let ?c = "card {i. i < unat len \<and> mem (unat dst_start + i) = mem (unat src_start + i)}"
  have "?c \<le> unat len" by (rule card_below)
  also have "unat len < 2 ^ 64" using unsigned_less [of len] by simp
  finally have lt: "?c < 2 ^ 64" .
  have "unat (of_nat ?c :: u64) = ?c"
    using lt by (simp add: unat_of_nat)
  then show ?thesis
    using assms by (auto simp add: compute_memcpy_redundancy_true_eq min_absorb1)
qed

text \<open>
  Three bytes at address 0 against three bytes at address 8: two positions are equal, and
  the byte 5 at \<open>src[1]\<close> is copied to \<open>dst[1]\<close>.
\<close>

theorem memcpy_redundancy_count_and_copy_witness:
  "fst (compute_memcpy_redundancy_true
          (\<lambda>a. if a = 0 then 1 else if a = 8 then 1 else if a = 9 then 5 else 0) 0 8 3) = 2 \<and>
   snd (compute_memcpy_redundancy_true
          (\<lambda>a. if a = 0 then 1 else if a = 8 then 1 else if a = 9 then 5 else 0) 0 8 3) 1 = 5 \<and>
   snd (compute_memcpy_redundancy_true
          (\<lambda>a. if a = 0 then 1 else if a = 8 then 1 else if a = 9 then 5 else 0) 0 8 3) 9 = 5"
proof -
  let ?mem = "\<lambda>a::nat. if a = 0 then 1 else if a = 8 then 1 else if a = 9 then 5 else (0::u8)"
  have disj: "unat (0::u64) + unat (3::u64) \<le> unat (8::u64) \<or>
              unat (8::u64) + unat (3::u64) \<le> unat (0::u64)"
    by simp
  have u: "unat (3::u64) = 3" "unat (0::u64) = 0" "unat (8::u64) = 8"
    by simp_all
  have "{i. i < unat (3::u64) \<and> ?mem (unat (0::u64) + i) = ?mem (unat (8::u64) + i)} = {0, 2}"
    unfolding u by (auto split: if_splits)
  then have cnt: "card {i. i < unat (3::u64) \<and> ?mem (unat (0::u64) + i) = ?mem (unat (8::u64) + i)} = 2"
    by simp
  have le: "card {i. i < unat (3::u64) \<and> ?mem (unat (0::u64) + i) = ?mem (unat (8::u64) + i)} \<le> 2 ^ 53"
    unfolding cnt by simp
  note t = memcpy_redundancy_count_and_copy [OF disj le]
  have "unat (fst (compute_memcpy_redundancy_true ?mem 0 8 3)) = 2"
    using t cnt by simp
  then have a: "fst (compute_memcpy_redundancy_true ?mem 0 8 3) = 2"
    by (simp add: word_unat_eq_iff)
  have b: "snd (compute_memcpy_redundancy_true ?mem 0 8 3) (unat (0::u64) + 1) = ?mem (unat (8::u64) + 1) \<and>
           snd (compute_memcpy_redundancy_true ?mem 0 8 3) (unat (8::u64) + 1) = ?mem (unat (8::u64) + 1)"
    using t by simp
  show ?thesis using a b by simp
qed

subsection \<open>C10: the kernel entry after \<open>redshow_analyze\<close>\<close>

text \<open>
  C10. After every call of \<open>redshow_analyze\<close>, whatever its outcome, the kernel map has an
  entry \<open>[thread_id][kernel_id]\<close> whose \<open>kernel_id\<close> and \<open>cubin_id\<close> fields are the
  arguments of the call.
\<close>

theorem redshow_analyze_keeps_kernel_entry: "\<exists>m k. kernel_map (snd (redshow_analyze ext g thread_id cubin_id' kernel_id' host_op_id trace_data)) thread_id = Some m \<and>
          m kernel_id' = Some k \<and> kernel_id k = kernel_id' \<and> cubin_id k = cubin_id'"
proof -
  define k0 where
    "k0 = (kernel_at (thread_kernel_map_at g thread_id) kernel_id')\<lparr>kernel_id := kernel_id', cubin_id := cubin_id'\<rparr>"
  define g1 where "g1 = g\<lparr>kernel_map := (kernel_map g)(thread_id \<mapsto> (thread_kernel_map_at g thread_id)(kernel_id' \<mapsto> k0))\<rparr>"
  obtain res k' g' where ta: "trace_analyze ext g1 k0 host_op_id trace_data = (res, k', g')"
    by (cases "trace_analyze ext g1 k0 host_op_id trace_data")
  have ids: "kernel_id k' = kernel_id'" "cubin_id k' = cubin_id'"
    using trace_analyze_ids [of ext g1 k0 host_op_id trace_data] ta by (simp_all add: k0_def)
  show ?thesis
    using redshow_analyze_eq [OF ta [unfolded g1_def k0_def]] ids
    by (simp split: sum.splits)
qed

text \<open>
  A call for a cubin that is not registered at all: the result is \<open>NOT_EXIST_ENTRY\<close> and
  the entry is there.
\<close>

theorem redshow_analyze_keeps_kernel_entry_witness:
  "fst (redshow_analyze no_inst_files initial_globals 0 1 7 10
          \<lparr>head_index = 1, records = (\<lambda>i. scenario_record)\<rparr>) = Inr REDSHOW_ERROR_NOT_EXIST_ENTRY \<and>
   (\<exists>m k. kernel_map (snd (redshow_analyze no_inst_files initial_globals 0 1 7 10
          \<lparr>head_index = 1, records = (\<lambda>i. scenario_record)\<rparr>)) 0 = Some m \<and>
        m 7 = Some k \<and> kernel_id k = 7 \<and> cubin_id k = 1)"
  using redshow_analyze_keeps_kernel_entry
    [of no_inst_files initial_globals 0 1 7 10 "\<lparr>head_index = 1, records = (\<lambda>i. scenario_record)\<rparr>"]
  by (simp add: redshow_analyze_def trace_analyze_def resolve_cubin_def initial_globals_def
      thread_kernel_map_at_def kernel_at_def Let_def)

end
